theory Spec2Isabelle
  imports Main "HOL-Library.Sublist" "HOL-Library.AList"
begin

section \<open>JavaScript values of the hymnal script\<close>

text \<open>
  The annotation collections of \<^verbatim>\<open>script.js\<close> are plain JavaScript values that
  travel through \<^verbatim>\<open>JSON.parse\<close> and \<^verbatim>\<open>JSON.stringify\<close>. They are modelled by the
  values that JSON can denote. Numbers are integers (hymn ids; the model is meant for
  the integers that a JavaScript number holds exactly and prints without an
  exponent), an object is the list of its properties, looked up by \<^const>\<open>map_of\<close>.
  The value \<^verbatim>\<open>undefined\<close>, which is no JSON value, is \<^const>\<open>None\<close> of
  \<open>json option\<close>.
\<close>

datatype json =
    JNull
  | JBool bool
  | JNum int
  | JStr string
  | JArr "json list"
  | JObj "(string \<times> json) list"

text \<open>The exceptions the modelled code can raise.\<close>

datatype error = SyntaxError | TypeError | Error string

text \<open>Truthiness, as \<^verbatim>\<open>||\<close>, \<^verbatim>\<open>&&\<close>, \<^verbatim>\<open>!\<close> and \<^verbatim>\<open>if\<close> read a value.\<close>

fun truthy :: "json \<Rightarrow> bool" where
  "truthy JNull = False"
| "truthy (JBool b) = b"
| "truthy (JNum n) = (n \<noteq> 0)"
| "truthy (JStr s) = (s \<noteq> [])"
| "truthy (JArr xs) = True"
| "truthy (JObj ps) = True"

text \<open>\<^verbatim>\<open>a || b\<close>, where \<open>a\<close> may be undefined and \<open>b\<close> is a defined value.\<close>

definition js_or :: "json option \<Rightarrow> json \<Rightarrow> json" where
  "js_or a b = (case a of None \<Rightarrow> b | Some v \<Rightarrow> if truthy v then v else b)"

text \<open>
  The property read \<^verbatim>\<open>data.k\<close> for a name \<open>k\<close> that is no index, not
  \<^verbatim>\<open>length\<close> and no member of a prototype (the script reads \<^verbatim>\<open>favorites\<close>,
  \<^verbatim>\<open>notes\<close> and \<^verbatim>\<open>moods\<close>): reading from \<^verbatim>\<open>null\<close> raises a TypeError, an object
  gives its property or undefined, every other value gives undefined.
\<close>

fun get_prop :: "json \<Rightarrow> string \<Rightarrow> error + json option" where
  "get_prop JNull k = Inl TypeError"
| "get_prop (JObj ps) k = Inr (map_of ps k)"
| "get_prop other k = Inr None"

subsection \<open>JSON texts and the local storage\<close>

text \<open>
  A string handed to \<^verbatim>\<open>JSON.parse\<close> either denotes a JSON value or is rejected with
  a SyntaxError. A text is modelled by what the parser makes of it: \<open>JsonText v\<close> is
  the text \<^verbatim>\<open>JSON.stringify(v)\<close>, which parses back to \<open>v\<close>, and \<open>NotJson s\<close> is a
  string \<open>s\<close> that does not parse.
\<close>

datatype document = JsonText json | NotJson string

fun JSON_parse :: "document \<Rightarrow> error + json" where
  "JSON_parse (JsonText v) = Inr v"
| "JSON_parse (NotJson s) = Inl SyntaxError"

definition JSON_stringify :: "json \<Rightarrow> document" where
  "JSON_stringify v = JsonText v"

text \<open>
  \<^verbatim>\<open>localStorage\<close>: \<^verbatim>\<open>getItem(k)\<close> is \<^verbatim>\<open>null\<close> for a key never written, and
  \<^verbatim>\<open>JSON.parse(null)\<close> is \<^verbatim>\<open>null\<close>.
\<close>

type_synonym storage = "string \<Rightarrow> document option"

definition parse_item :: "storage \<Rightarrow> string \<Rightarrow> error + json" where
  "parse_item ls k = (case ls k of None \<Rightarrow> Inr JNull | Some d \<Rightarrow> JSON_parse d)"

section \<open>The catalog and the application state\<close>

text \<open>
  A hymn of the catalog. \<^verbatim>\<open>title\<close> and \<^verbatim>\<open>lyrics\<close> may be absent
  (\<^const>\<open>None\<close> is \<^verbatim>\<open>undefined\<close>).
\<close>

record hymn =
  hymn_id :: int
  title :: "string option"
  lyrics :: "string option"
  audio :: string
  mood :: string

text \<open>
  The module-level variables of the script (lines 54 to 62), the storage, and the
  message last handed to \<^verbatim>\<open>showToast\<close>.
\<close>

record app =
  hymns :: "hymn list"
  lyricsCache :: "int \<Rightarrow> string option"
  currentHymn :: "hymn option"
  favorites :: json
  notes_obj :: json
  moods :: json
  currentMoodFilter :: string
  localStorage :: storage
  toast :: "string option"

subsection \<open>Startup: reading the three slots (lines 59 to 61)\<close>

text \<open>
  \<^verbatim>\<open>let favorites = JSON.parse(localStorage.getItem('favorites')) || [];\<close> and the two
  lines after it, in their order. The statements stand at the top level of the script
  with no handler around them, so the first SyntaxError ends the startup.
\<close>

definition init_collections :: "storage \<Rightarrow> error + (json \<times> json \<times> json)" where
  "init_collections ls =
     (case parse_item ls ''favorites'' of
        Inl e \<Rightarrow> Inl e
      | Inr f \<Rightarrow>
          (case parse_item ls ''notes'' of
             Inl e \<Rightarrow> Inl e
           | Inr n \<Rightarrow>
               (case parse_item ls ''moods'' of
                  Inl e \<Rightarrow> Inl e
                | Inr m \<Rightarrow>
                    Inr (js_or (Some f) (JArr []), js_or (Some n) (JObj []),
                         js_or (Some m) (JObj [])))))"

text \<open>
  What one slot alone contributes to its collection when the startup gets through: the
  default for a missing slot and for a falsy value, the parsed value otherwise. (With
  a slot that does not parse the startup does not get through; the last case is
  there for totality.)
\<close>

definition slot_default :: "document option \<Rightarrow> json \<Rightarrow> json" where
  "slot_default slot dflt =
     (case slot of
        None \<Rightarrow> dflt
      | Some (JsonText v) \<Rightarrow> if truthy v then v else dflt
      | Some (NotJson s) \<Rightarrow> dflt)"

fun parsable :: "document option \<Rightarrow> bool" where
  "parsable (Some (NotJson s)) = False"
| "parsable other = True"

section \<open>Strings\<close>

text \<open>
  A string is a list of 8-bit characters, read as the code units below 256.
  \<^verbatim>\<open>String(n)\<close> of an integer is its decimal numeral, with a minus sign for a
  negative one. This is what JavaScript prints for the integers that a number holds
  exactly, up to the exponent notation that starts at \<open>10\<^sup>2\<^sup>1\<close>; \<open>safe_id\<close> below is
  the range \<^verbatim>\<open>Number.MIN_SAFE_INTEGER\<close> to \<^verbatim>\<open>Number.MAX_SAFE_INTEGER\<close>, inside which
  the definition is the JavaScript function.
\<close>

definition digit_char :: "nat \<Rightarrow> char" where
  "digit_char d = char_of (48 + d)"

fun digits :: "nat \<Rightarrow> string" where
  "digits n = (if n < 10 then [digit_char n] else digits (n div 10) @ [digit_char (n mod 10)])"

declare digits.simps [simp del]

definition String_of :: "int \<Rightarrow> string" where
  "String_of i = (if i < 0 then CHR ''-'' # digits (nat (- i)) else digits (nat i))"

definition safe_id :: "int \<Rightarrow> bool" where
  "safe_id i = (- 9007199254740991 \<le> i \<and> i \<le> 9007199254740991)"

text \<open>
  \<^verbatim>\<open>Number(s)\<close> on a decimal numeral, the inverse of \<^verbatim>\<open>String(n)\<close>: the ids that the
  click handlers read from \<^verbatim>\<open>dataset.id\<close> are turned back into numbers by it.
\<close>

definition digit_value :: "char \<Rightarrow> nat" where
  "digit_value c = of_char c - 48"

definition number_of_digits :: "string \<Rightarrow> nat" where
  "number_of_digits s = foldl (\<lambda>a c. 10 * a + digit_value c) 0 s"

definition Number_of :: "string \<Rightarrow> int" where
  "Number_of s =
     (case s of
        [] \<Rightarrow> 0
      | c # cs \<Rightarrow> if c = CHR ''-'' then - int (number_of_digits cs)
                  else int (number_of_digits s))"

text \<open>\<^verbatim>\<open>s.padStart(n, c)\<close> for a one-character pad.\<close>

definition padStart :: "nat \<Rightarrow> char \<Rightarrow> string \<Rightarrow> string" where
  "padStart n c s = replicate (n - length s) c @ s"

text \<open>
  \<^verbatim>\<open>toLowerCase\<close> on code units below 256: the letters A to Z, and the capital
  letters of the Latin-1 supplement (192 to 222 without the multiplication sign 215),
  move up by 32.
\<close>

definition lower_char :: "char \<Rightarrow> char" where
  "lower_char c =
     (let n = (of_char c :: nat)
      in if (65 \<le> n \<and> n \<le> 90) \<or> (192 \<le> n \<and> n \<le> 222 \<and> n \<noteq> 215)
         then char_of (n + 32) else c)"

definition toLowerCase :: "string \<Rightarrow> string" where
  "toLowerCase s = map lower_char s"

text \<open>
  \<^verbatim>\<open>trim\<close>: white space and line terminators below 256 are tab, line feed, vertical
  tab, form feed, carriage return, space and the no-break space.
\<close>

definition is_space :: "char \<Rightarrow> bool" where
  "is_space c = ((of_char c :: nat) \<in> {9, 10, 11, 12, 13, 32, 160})"

definition trim :: "string \<Rightarrow> string" where
  "trim s = rev (dropWhile is_space (rev (dropWhile is_space s)))"

text \<open>\<^verbatim>\<open>s.includes(q)\<close>: \<open>q\<close> starts at some position of \<open>s\<close>.\<close>

fun str_includes :: "string \<Rightarrow> string \<Rightarrow> bool" where
  "str_includes [] q = (q = [])"
| "str_includes (c # cs) q = (prefix q (c # cs) \<or> str_includes cs q)"

section \<open>Favorites (lines 375 to 396)\<close>

text \<open>
  \<^verbatim>\<open>xs.indexOf(v)\<close> for a number \<open>v\<close>: the first position holding that number, or -1.
  Strict equality with a number is equality of values.
\<close>

fun indexOf :: "json list \<Rightarrow> json \<Rightarrow> int" where
  "indexOf [] v = - 1"
| "indexOf (x # xs) v =
     (if x = v then 0 else (let i = indexOf xs v in if i = - 1 then - 1 else i + 1))"

text \<open>\<^verbatim>\<open>xs.splice(i, 1)\<close> for an index \<open>i\<close> of the array.\<close>

definition splice1 :: "json list \<Rightarrow> nat \<Rightarrow> json list" where
  "splice1 xs i = take i xs @ drop (Suc i) xs"

text \<open>
  \<^verbatim>\<open>toggleFavorite(hymnId)\<close>, for a numeric \<open>hymnId\<close> (on which \<^verbatim>\<open>Number\<close> is the
  identity), up to the write to the storage; the refresh of the lists and of the
  detail button that follows is not part of the model. The function has no
  \<^verbatim>\<open>return\<close> statement: the first component of the result is the value of the call,
  \<^verbatim>\<open>undefined\<close>. A value of \<^verbatim>\<open>favorites\<close> that is no array has no \<^verbatim>\<open>indexOf\<close>,
  \<^verbatim>\<open>push\<close> or \<^verbatim>\<open>splice\<close> to call (a string has \<^verbatim>\<open>indexOf\<close>, and then no
  \<^verbatim>\<open>push\<close> and no \<^verbatim>\<open>splice\<close>): TypeError.
\<close>

definition toggleFavorite :: "int \<Rightarrow> app \<Rightarrow> error + (json option \<times> app)" where
  "toggleFavorite hymnId st =
     (case favorites st of
        JArr xs \<Rightarrow>
          (let idx = indexOf xs (JNum hymnId);
               xs' = (if idx = - 1 then xs @ [JNum hymnId] else splice1 xs (nat idx));
               msg = (if idx = - 1 then ''Added to Favorites'' else ''Removed from Favorites'')
           in Inr (None,
                   st\<lparr>favorites := JArr xs',
                      localStorage := (localStorage st)(''favorites'' \<mapsto> JSON_stringify (JArr xs')),
                      toast := Some msg\<rparr>))
      | other \<Rightarrow> Inl TypeError)"


text \<open>
  \<^verbatim>\<open>favorites.includes(hymn.id)\<close>: membership in an array, the search of the decimal
  numeral in a string, and a TypeError for a value with no \<^verbatim>\<open>includes\<close>.
\<close>

fun favorites_includes :: "json \<Rightarrow> int \<Rightarrow> error + bool" where
  "favorites_includes (JArr xs) i = Inr (JNum i \<in> set xs)"
| "favorites_includes (JStr s) i = Inr (str_includes s (String_of i))"
| "favorites_includes other i = Inl TypeError"

section \<open>Notes (lines 411 to 425)\<close>

text \<open>
  The assignment \<^verbatim>\<open>obj[id] = v\<close> and \<^verbatim>\<open>delete obj[id]\<close>, with the property name
  \<^verbatim>\<open>String(id)\<close>. On an object the property is set or removed. On a primitive value
  (the script is not in strict mode) both leave the value as it is. On an array, which
  only a hand-made import or a hand-made slot can put into \<^verbatim>\<open>notes\<close>, a name that
  is an array index (the numeral of an integer from 0 to \<open>2\<^sup>3\<^sup>2 - 2\<close>) sets the
  element, after filling the array up with holes, or leaves a hole in its place; a
  hole reads as undefined and is written as \<^verbatim>\<open>null\<close> by \<^verbatim>\<open>JSON.stringify\<close>, and
  is \<open>JNull\<close> here. Any other name on an array is a named property, which
  \<^verbatim>\<open>JSON.stringify\<close> does not write: the array stays as it is.
\<close>

definition array_index :: "string \<Rightarrow> bool" where
  "array_index k =
     (0 \<le> Number_of k \<and> Number_of k < 4294967295 \<and> String_of (Number_of k) = k)"

definition set_element :: "json list \<Rightarrow> nat \<Rightarrow> json \<Rightarrow> json list" where
  "set_element xs i v =
     (if i < length xs then xs[i := v] else xs @ replicate (i - length xs) JNull @ [v])"

fun put_member :: "json \<Rightarrow> string \<Rightarrow> json \<Rightarrow> json" where
  "put_member (JObj ps) k v = JObj (AList.update k v ps)"
| "put_member (JArr xs) k v =
     (if array_index k then JArr (set_element xs (nat (Number_of k)) v) else JArr xs)"
| "put_member other k v = other"

fun delete_member :: "json \<Rightarrow> string \<Rightarrow> json" where
  "delete_member (JObj ps) k = JObj (AList.delete k ps)"
| "delete_member (JArr xs) k =
     (if array_index k \<and> nat (Number_of k) < length xs
      then JArr (xs[nat (Number_of k) := JNull]) else JArr xs)"
| "delete_member other k = other"

text \<open>
  \<^verbatim>\<open>saveNote()\<close>; the argument is \<^verbatim>\<open>notesTextarea.value\<close>. The closing of the modal
  and the refresh of the lists, which follow the write to the storage, are not part of
  the model.
\<close>

definition saveNote :: "string \<Rightarrow> app \<Rightarrow> app" where
  "saveNote textarea st =
     (case currentHymn st of
        None \<Rightarrow> st
      | Some h \<Rightarrow>
          (let t = trim textarea;
               k = String_of (hymn_id h);
               n = (if t \<noteq> [] then put_member (notes_obj st) k (JStr t)
                    else delete_member (notes_obj st) k);
               msg = (if t \<noteq> [] then ''Note saved'' else ''Note cleared'')
           in st\<lparr>notes_obj := n,
                 localStorage := (localStorage st)(''notes'' \<mapsto> JSON_stringify n),
                 toast := Some msg\<rparr>))"

text \<open>The entries of a note object that the invariant of the note map allows.\<close>

fun nonblank :: "json \<Rightarrow> bool" where
  "nonblank (JStr s) = (trim s \<noteq> [])"
| "nonblank other = False"

section \<open>The mood list (lines 442 to 448)\<close>

text \<open>
  The read \<^verbatim>\<open>obj[id]\<close> for an integer id: the property \<^verbatim>\<open>String(id)\<close> of an
  object, the element of an array, the character of a string, and undefined
  otherwise. (A read from \<^verbatim>\<open>null\<close> raises; the refreshes of the lists make that
  distinction before they read. Each assignment to \<^verbatim>\<open>moods\<close> is guarded by
  \<^verbatim>\<open>||\<close>, so the script itself never makes it \<^verbatim>\<open>null\<close>.)
\<close>

fun read_member :: "json \<Rightarrow> int \<Rightarrow> json option" where
  "read_member (JObj ps) i = map_of ps (String_of i)"
| "read_member (JArr xs) i = (if 0 \<le> i \<and> nat i < length xs then Some (xs ! nat i) else None)"
| "read_member (JStr s) i = (if 0 \<le> i \<and> nat i < length s then Some (JStr [s ! nat i]) else None)"
| "read_member other i = None"

text \<open>\<^verbatim>\<open>updateMoodDisplay()\<close>: the list handed to \<^verbatim>\<open>renderHymnsList\<close>.\<close>

definition updateMoodDisplay :: "app \<Rightarrow> hymn list" where
  "updateMoodDisplay st =
     (if currentMoodFilter st \<noteq> [] \<and> currentMoodFilter st \<noteq> ''all''
      then filter (\<lambda>h. read_member (moods st) (hymn_id h) = Some (JStr (currentMoodFilter st)))
             (hymns st)
      else hymns st)"

section \<open>Search (lines 557 to 572)\<close>

text \<open>\<^verbatim>\<open>hymn.lyrics || lyricsCache.get(hymn.id) || ''\<close>.\<close>

definition lyricsText :: "(int \<Rightarrow> string option) \<Rightarrow> hymn \<Rightarrow> string" where
  "lyricsText cache h =
     (let cached = (case cache (hymn_id h) of None \<Rightarrow> [] | Some c \<Rightarrow> c)
      in case lyrics h of
           None \<Rightarrow> cached
         | Some l \<Rightarrow> if l \<noteq> [] then l else cached)"

text \<open>The callback of \<^verbatim>\<open>hymns.filter\<close> in \<^verbatim>\<open>filterHymnsImmediate\<close>.\<close>

definition hymn_matches :: "string \<Rightarrow> (int \<Rightarrow> string option) \<Rightarrow> hymn \<Rightarrow> bool" where
  "hymn_matches q cache h =
     (let idStr = String_of (hymn_id h)
      in if idStr = q \<or> padStart 3 (CHR ''0'') idStr = q then True
         else if (case title h of None \<Rightarrow> False
                  | Some t \<Rightarrow> t \<noteq> [] \<and> str_includes (toLowerCase t) q) then True
         else (let ly = lyricsText cache h
               in ly \<noteq> [] \<and> str_includes (toLowerCase ly) q))"

text \<open>\<^verbatim>\<open>filterHymnsImmediate(query)\<close>: the list handed to \<^verbatim>\<open>renderHymnsList\<close>.\<close>

definition filterHymnsImmediate :: "string \<Rightarrow> app \<Rightarrow> hymn list" where
  "filterHymnsImmediate query st =
     (let q = trim (toLowerCase query)
      in if q = [] then hymns st
         else filter (hymn_matches q (lyricsCache st)) (hymns st))"

section \<open>Cards (lines 139 to 173)\<close>

text \<open>
  \<^verbatim>\<open>escapeHtml(text)\<close>: the callback of \<^verbatim>\<open>replace\<close> maps each of the five characters
  of the class \<^verbatim>\<open>[&<>"']\<close> to its entry in the table; the other characters stay. A
  falsy argument (undefined, or the empty string) gives the empty string.
\<close>

definition escape_char :: "char \<Rightarrow> string" where
  \<open>escape_char c =
     (if c = CHR ''&'' then ''&amp;''
      else if c = CHR ''<'' then ''&lt;''
      else if c = CHR ''>'' then ''&gt;''
      else if c = CHR 0x22 then ''&quot;''
      else if c = CHR 0x27 then ''&#39;''
      else [c])\<close>

definition escapeHtml :: "string option \<Rightarrow> string" where
  "escapeHtml arg =
     (case arg of
        None \<Rightarrow> []
      | Some t \<Rightarrow> if t = [] then [] else concat (map escape_char t))"

text \<open>The five entities of the table.\<close>

definition entities :: "string list" where
  \<open>entities = [''&amp;'', ''&lt;'', ''&gt;'', ''&quot;'', ''&#39;'']\<close>

text \<open>The fixed pieces of the template literal of \<^verbatim>\<open>createHymnCardDOM\<close>, in order.\<close>

definition nl :: string where
  "nl = [CHR 0x0A]"

definition sp :: "nat \<Rightarrow> string" where
  "sp n = replicate n (CHR '' '')"

definition card_head :: string where
  \<open>card_head = nl @ sp 8 @ ''<div class="hymn-number">''\<close>

definition card_after_number :: string where
  \<open>card_after_number =
     ''</div>'' @ nl @ sp 8 @ ''<div class="hymn-image"><i class="fas fa-music"></i></div>'' @
     nl @ sp 8 @ ''<div class="hymn-content">'' @ nl @ sp 12 @ ''<h3 class="hymn-title">''\<close>

definition card_after_title :: string where
  \<open>card_after_title = ''</h3>'' @ nl @ sp 12 @ ''<p class="hymn-preview">''\<close>

definition card_after_preview :: string where
  \<open>card_after_preview =
     ''</p>'' @ nl @ sp 12 @ ''<div class="hymn-actions">'' @ nl @ sp 16 @
     ''<button class="favorite''\<close>

definition card_favorite_attrs :: string where
  \<open>card_favorite_attrs = ''" data-action="favorite" data-id="''\<close>

definition card_icon :: string where
  \<open>card_icon = ''">'' @ nl @ sp 20 @ ''<i class="''\<close>

definition card_after_icon :: string where
  \<open>card_after_icon =
     '' fa-heart"></i>'' @ nl @ sp 20 @ ''<span>Favorite</span>'' @ nl @ sp 16 @
     ''</button>'' @ nl @ sp 16 @ ''<button class="play" data-action="play" data-id="''\<close>

definition card_tail :: string where
  \<open>card_tail =
     ''">'' @ nl @ sp 20 @ ''<i class="fas fa-play"></i>'' @ nl @ sp 20 @
     ''<span>Play</span>'' @ nl @ sp 16 @ ''</button>'' @ nl @ sp 12 @ ''</div>'' @
     nl @ sp 8 @ ''</div>'' @ nl @ sp 4\<close>

text \<open>
  The markup of a card, given the preview and the result of
  \<^verbatim>\<open>favorites.includes(hymn.id)\<close>.
\<close>

definition card_markup :: "hymn \<Rightarrow> string \<Rightarrow> bool \<Rightarrow> string" where
  "card_markup h preview fav =
     card_head @ String_of (hymn_id h) @ card_after_number @ escapeHtml (title h) @
     card_after_title @ escapeHtml (Some preview) @
     (if preview \<noteq> [] then ''...'' else ''Lyrics not available'') @
     card_after_preview @ (if fav then '' active'' else []) @ card_favorite_attrs @
     String_of (hymn_id h) @ card_icon @ (if fav then ''fas'' else ''far'') @
     card_after_icon @ String_of (hymn_id h) @ card_tail"

text \<open>
  \<^verbatim>\<open>createHymnCardDOM(hymn)\<close>: the string assigned to \<^verbatim>\<open>card.innerHTML\<close>. The call
  raises when \<^verbatim>\<open>favorites\<close> has no \<^verbatim>\<open>includes\<close>.
\<close>

definition createHymnCardDOM :: "app \<Rightarrow> hymn \<Rightarrow> error + string" where
  "createHymnCardDOM st h =
     (case favorites_includes (favorites st) (hymn_id h) of
        Inl e \<Rightarrow> Inl e
      | Inr fav \<Rightarrow> Inr (card_markup h (take 100 (lyricsText (lyricsCache st) h)) fav))"

section \<open>Rendering the lists (lines 176 to 195 and 398 to 448)\<close>

text \<open>
  \<^verbatim>\<open>renderHymnsList(hymnsArray, container)\<close> for a container that is on the page: the
  markup of the cards it appends, in order, or the exception of the first card that
  raises. For an empty array the block \<^verbatim>\<open>No hymns found\<close> is shown and there is no
  card. (On a page without the container the call returns at once, line 177. The
  refreshes below then raise all the same: on a catalog that is not empty the
  callback of \<^verbatim>\<open>updateFavoritesDisplay\<close> makes the call \<^verbatim>\<open>favorites.includes\<close> that a
  card would make.)
\<close>

fun renderHymnsList :: "app \<Rightarrow> hymn list \<Rightarrow> error + string list" where
  "renderHymnsList st [] = Inr []"
| "renderHymnsList st (h # hs) =
     (case createHymnCardDOM st h of
        Inl e \<Rightarrow> Inl e
      | Inr c \<Rightarrow>
          (case renderHymnsList st hs of
             Inl e \<Rightarrow> Inl e
           | Inr cs \<Rightarrow> Inr (c # cs)))"

text \<open>
  \<^verbatim>\<open>xs.filter(p)\<close> for a callback that may raise: the callback runs on the elements
  in order, and its first exception is the exception of the call.
\<close>

fun filter_raising :: "('a \<Rightarrow> error + bool) \<Rightarrow> 'a list \<Rightarrow> error + 'a list" where
  "filter_raising p [] = Inr []"
| "filter_raising p (x # xs) =
     (case p x of
        Inl e \<Rightarrow> Inl e
      | Inr b \<Rightarrow>
          (case filter_raising p xs of
             Inl e \<Rightarrow> Inl e
           | Inr ys \<Rightarrow> Inr (if b then x # ys else ys)))"

text \<open>One statement after another: the second runs when the first has not raised.\<close>

definition and_then :: "error + 'a \<Rightarrow> error + 'b \<Rightarrow> error + 'b" where
  "and_then a b = (case a of Inl e \<Rightarrow> Inl e | Inr x \<Rightarrow> b)"

text \<open>\<^verbatim>\<open>updateFavoritesDisplay()\<close> (lines 399 to 402).\<close>

definition updateFavoritesDisplay :: "app \<Rightarrow> error + string list" where
  "updateFavoritesDisplay st =
     (case filter_raising (\<lambda>h. favorites_includes (favorites st) (hymn_id h)) (hymns st) of
        Inl e \<Rightarrow> Inl e
      | Inr favHymns \<Rightarrow> renderHymnsList st favHymns)"

text \<open>
  \<^verbatim>\<open>updateNotesDisplay()\<close> (lines 426 to 429). The callback reads \<^verbatim>\<open>notes[h.id]\<close> as
  a condition; a read from \<^verbatim>\<open>null\<close> raises.
\<close>

definition notes_entry_truthy :: "json \<Rightarrow> int \<Rightarrow> error + bool" where
  "notes_entry_truthy n i =
     (if n = JNull then Inl TypeError
      else Inr (case read_member n i of None \<Rightarrow> False | Some v \<Rightarrow> truthy v))"

definition updateNotesDisplay :: "app \<Rightarrow> error + string list" where
  "updateNotesDisplay st =
     (case filter_raising (\<lambda>h. notes_entry_truthy (notes_obj st) (hymn_id h)) (hymns st) of
        Inl e \<Rightarrow> Inl e
      | Inr withNotes \<Rightarrow> renderHymnsList st withNotes)"

text \<open>
  \<^verbatim>\<open>updateMoodDisplay()\<close> with its call of \<^verbatim>\<open>renderHymnsList\<close>. The callback of the
  filter, which runs when a filter is set and the catalog is not empty, reads
  \<^verbatim>\<open>moods[h.id]\<close>; a read from \<^verbatim>\<open>null\<close> raises.
\<close>

definition updateMoodDisplay_render :: "app \<Rightarrow> error + string list" where
  "updateMoodDisplay_render st =
     (if currentMoodFilter st \<noteq> [] \<and> currentMoodFilter st \<noteq> ''all'' \<and>
         moods st = JNull \<and> hymns st \<noteq> []
      then Inl TypeError
      else renderHymnsList st (updateMoodDisplay st))"

section \<open>Import and export (lines 451 to 495)\<close>

text \<open>
  The body of the \<^verbatim>\<open>try\<close> block of \<^verbatim>\<open>reader.onload\<close>, up to the three writes to the
  storage. \<^verbatim>\<open>Array.isArray(data.favorites) ? data.favorites : favorites\<close> is the case
  distinction on the property read.
\<close>

definition importData_body :: "document \<Rightarrow> app \<Rightarrow> error + app" where
  "importData_body file st =
     (case JSON_parse file of
        Inl e \<Rightarrow> Inl e
      | Inr data \<Rightarrow>
          (case get_prop data ''favorites'' of
             Inl e \<Rightarrow> Inl e
           | Inr df \<Rightarrow>
               (case get_prop data ''notes'' of
                  Inl e \<Rightarrow> Inl e
                | Inr dn \<Rightarrow>
                    (case get_prop data ''moods'' of
                       Inl e \<Rightarrow> Inl e
                     | Inr dm \<Rightarrow>
                         (let f = (case df of
                                     Some (JArr xs) \<Rightarrow> JArr xs
                                   | other \<Rightarrow> favorites st);
                              n = js_or dn (notes_obj st);
                              m = js_or dm (moods st)
                          in Inr (st\<lparr>favorites := f, notes_obj := n, moods := m,
                                     localStorage := (localStorage st)
                                       (''favorites'' \<mapsto> JSON_stringify f,
                                        ''notes'' \<mapsto> JSON_stringify n,
                                        ''moods'' \<mapsto> JSON_stringify m)\<rparr>))))))"

text \<open>
  The rest of the \<^verbatim>\<open>try\<close> block: the three lists are refreshed and the main list is
  rendered again (lines 482 to 485).
\<close>

definition importData_refresh :: "app \<Rightarrow> error + string list" where
  "importData_refresh st =
     and_then (updateFavoritesDisplay st)
       (and_then (updateNotesDisplay st)
          (and_then (updateMoodDisplay_render st) (renderHymnsList st (hymns st))))"

text \<open>
  \<^verbatim>\<open>reader.onload\<close>: after the refresh the toast is \<^verbatim>\<open>Data imported\<close>. An exception
  of the \<^verbatim>\<open>try\<close> block is caught, and the only thing the handler does is to report
  \<^verbatim>\<open>Import failed\<close>: when the text does not parse or is \<^verbatim>\<open>null\<close> nothing has been
  assigned yet, and when the refresh raises the collections and the slots have
  already been written.
\<close>

definition importData :: "document \<Rightarrow> app \<Rightarrow> app" where
  "importData file st =
     (case importData_body file st of
        Inl e \<Rightarrow> st\<lparr>toast := Some ''Import failed''\<rparr>
      | Inr st' \<Rightarrow>
          (case importData_refresh st' of
             Inl e \<Rightarrow> st'\<lparr>toast := Some ''Import failed''\<rparr>
           | Inr cards \<Rightarrow> st'\<lparr>toast := Some ''Data imported''\<rparr>))"

text \<open>
  \<^verbatim>\<open>exportData\<close>: the downloaded file holds \<^verbatim>\<open>JSON.stringify({ favorites, notes, moods }, null, 2)\<close>;
  the function returns nothing and changes only the toast.
\<close>

definition exportData :: "app \<Rightarrow> document \<times> app" where
  "exportData st =
     (JSON_stringify (JObj [(''favorites'', favorites st), (''notes'', notes_obj st),
                            (''moods'', moods st)]),
      st\<lparr>toast := Some ''Data exported''\<rparr>)"

section \<open>Loading the catalog (lines 13 to 51 and 211 to 231)\<close>

definition sampleHymns :: "hymn list" where
  "sampleHymns =
     [\<lparr>hymn_id = 1, title = Some ''Amazing Grace'',
        lyrics = Some (''Amazing grace! How sweet the sound'' @ [CHR 0x0A] @
                       ''That saved a wretch like me! ...''),
        audio = ''audio/hymn1.mp3'', mood = ''worshipful''\<rparr>,
      \<lparr>hymn_id = 2, title = Some ''How Great Thou Art'',
        lyrics = Some ''O Lord my God, when I in awesome wonder ...'',
        audio = ''audio/hymn2.mp3'', mood = ''worshipful''\<rparr>,
      \<lparr>hymn_id = 3, title = Some ''Great Is Thy Faithfulness'',
        lyrics = Some ''Great is Thy faithfulness, O God my Father; ...'',
        audio = ''audio/hymn3.mp3'', mood = ''calm''\<rparr>,
      \<lparr>hymn_id = 4, title = Some ''It Is Well With My Soul'',
        lyrics = Some ''When peace, like a river, attendeth my way, ...'',
        audio = ''audio/hymn4.mp3'', mood = ''calm''\<rparr>,
      \<lparr>hymn_id = 5, title = Some ''Blessed Assurance'',
        lyrics = Some ''Blessed assurance, Jesus is mine! ...'',
        audio = ''audio/hymn5.mp3'', mood = ''happy''\<rparr>]"

text \<open>
  What \<^verbatim>\<open>fetch('data/hymns.json')\<close> and \<^verbatim>\<open>res.json()\<close> can come to: the fetch is
  rejected, or there is a response with its \<^verbatim>\<open>ok\<close> flag and a body that is no JSON,
  that is a JSON array, or that is a JSON value other than an array. An item of the
  array is \<^verbatim>\<open>null\<close> (\<^const>\<open>None\<close>) or a record of the shape of a hymn; items of
  other shapes are outside the typed catalog.
\<close>

datatype body = NotJsonBody | JsonArray "hymn option list" | JsonNotArray





section \<open>States and specifications used by the properties\<close>

text \<open>
  The state after a start with an empty storage, before the catalog has arrived
  (the sample catalog stands in for it).
\<close>

definition empty_storage :: storage where
  "empty_storage = (\<lambda>k. None)"

definition fresh :: app where
  "fresh = \<lparr>hymns = sampleHymns, lyricsCache = (\<lambda>i. None), currentHymn = None,
            favorites = JArr [], notes_obj = JObj [], moods = JObj [],
            currentMoodFilter = ''all'', localStorage = empty_storage, toast = None\<rparr>"

text \<open>
  Two storages: favorites [1, 2] with a note slot holding \<^verbatim>\<open>null\<close>, and favorites
  [1, 2] with a note slot holding a text that is no JSON.
\<close>

definition null_notes :: storage where
  "null_notes = empty_storage(''favorites'' \<mapsto> JsonText (JArr [JNum 1, JNum 2]),
                              ''notes'' \<mapsto> JsonText JNull)"

definition corrupt_notes :: storage where
  "corrupt_notes = empty_storage(''favorites'' \<mapsto> JsonText (JArr [JNum 1, JNum 2]),
                                 ''notes'' \<mapsto> NotJson ''{oops'')"

text \<open>
  A state with one favorite, one note and one mood, each already written to its slot.
\<close>

definition annotated :: app where
  "annotated =
     fresh\<lparr>favorites := JArr [JNum 3], notes_obj := JObj [(''3'', JStr ''x'')],
           moods := JObj [(''3'', JStr ''calm'')],
           localStorage := empty_storage
             (''favorites'' \<mapsto> JsonText (JArr [JNum 3]),
              ''notes'' \<mapsto> JsonText (JObj [(''3'', JStr ''x'')]),
              ''moods'' \<mapsto> JsonText (JObj [(''3'', JStr ''calm'')]))\<rparr>"

text \<open>Each slot holds the serialization of its collection, as after a write.\<close>

definition synced :: "app \<Rightarrow> bool" where
  "synced st =
     (localStorage st ''favorites'' = Some (JSON_stringify (favorites st)) \<and>
      localStorage st ''notes'' = Some (JSON_stringify (notes_obj st)) \<and>
      localStorage st ''moods'' = Some (JSON_stringify (moods st)))"

text \<open>The storage after the three collections have been written to it.\<close>

definition persist_all :: "app \<Rightarrow> storage" where
  "persist_all st =
     (localStorage st)
       (''favorites'' \<mapsto> JSON_stringify (favorites st),
        ''notes'' \<mapsto> JSON_stringify (notes_obj st),
        ''moods'' \<mapsto> JSON_stringify (moods st))"

text \<open>Export, then import of the exported file.\<close>

definition round_trip :: "app \<Rightarrow> app" where
  "round_trip st = importData (fst (exportData st)) (snd (exportData st))"

text \<open>The array a toggle leaves: the id appended, or its first occurrence removed.\<close>

definition toggled :: "int \<Rightarrow> json list \<Rightarrow> json list" where
  "toggled i xs = (if JNum i \<in> set xs then remove1 (JNum i) xs else xs @ [JNum i])"

text \<open>A state with the favorites [1, 2], written to their slot.\<close>

definition two_favorites :: app where
  "two_favorites =
     fresh\<lparr>favorites := JArr [JNum 1, JNum 2],
           localStorage := empty_storage(''favorites'' \<mapsto> JsonText (JArr [JNum 1, JNum 2]))\<rparr>"

text \<open>The value of a call, and the slot of the favorites after it.\<close>

definition call_value :: "error + (json option \<times> app) \<Rightarrow> error + json option" where
  "call_value r = map_sum id fst r"


text \<open>
  The note map that the value of \<^verbatim>\<open>notes\<close> denotes, and the invariant of the note
  map: an object all of whose entries are strings that are not blank.
\<close>

fun entries :: "json \<Rightarrow> string \<Rightarrow> json option" where
  "entries (JObj ps) = map_of ps"
| "entries other = (\<lambda>k. None)"

fun note_invariant :: "json \<Rightarrow> bool" where
  "note_invariant (JObj ps) = list_all (\<lambda>p. nonblank (snd p)) ps"
| "note_invariant other = False"

text \<open>The state \<open>annotated\<close> with the third sample hymn (id 3) open in the detail view.\<close>

definition open_hymn :: app where
  "open_hymn = annotated\<lparr>currentHymn := Some (sampleHymns ! 2)\<rparr>"

text \<open>The entry of the mood map for a hymn id.\<close>

definition mood_of :: "json \<Rightarrow> int \<Rightarrow> json option" where
  "mood_of m i = entries m (String_of i)"

text \<open>
  A catalog whose order is not the order of the ids (5, 3, 1), with the moods
  3: calm, 1: calm, 5: happy and the filter \<^verbatim>\<open>calm\<close>.
\<close>

definition shuffled :: app where
  "shuffled =
     fresh\<lparr>hymns := [sampleHymns ! 4, sampleHymns ! 2, sampleHymns ! 0],
           moods := JObj [(''3'', JStr ''calm''), (''1'', JStr ''calm''), (''5'', JStr ''happy'')],
           currentMoodFilter := ''calm''\<rparr>"

text \<open>
  The body of an item as the specification has it: the inline body if the item
  carries one, otherwise the body cached for its id, if there is one.
\<close>

definition item_body :: "(int \<Rightarrow> string option) \<Rightarrow> hymn \<Rightarrow> string option" where
  "item_body cache h =
     (case lyrics h of
        None \<Rightarrow> cache (hymn_id h)
      | Some l \<Rightarrow> if l = [] then cache (hymn_id h) else Some l)"

text \<open>
  The search as the specification words it. The query is trimmed and lower-cased. A
  text contains a query without regard to case when a segment of the text equals the
  query after lower-casing both. An item matches when its id as a decimal numeral is
  the query, or its id padded with zeros to three digits is the query, or its title
  contains the query, or its body contains the query.
\<close>

definition query_of :: "string \<Rightarrow> string" where
  "query_of query = toLowerCase (trim query)"

definition ci_contains :: "string \<Rightarrow> string \<Rightarrow> bool" where
  "ci_contains s q = (\<exists>us w vs. s = us @ w @ vs \<and> toLowerCase w = toLowerCase q)"

definition item_matches :: "string \<Rightarrow> (int \<Rightarrow> string option) \<Rightarrow> hymn \<Rightarrow> bool" where
  "item_matches q cache h =
     (String_of (hymn_id h) = q \<or>
      replicate (3 - length (String_of (hymn_id h))) (CHR ''0'') @ String_of (hymn_id h) = q \<or>
      (\<exists>t. title h = Some t \<and> ci_contains t q) \<or>
      (\<exists>b. item_body cache h = Some b \<and> ci_contains b q))"

text \<open>
  The item of the specification's example, an item with an inline body, and an item
  whose body is in the cache only; the three of them as the catalog.
\<close>

definition grace :: hymn where
  "grace = \<lparr>hymn_id = 7, title = Some ''Grace Abounds'', lyrics = None, audio = [], mood = []\<rparr>"

definition rock :: hymn where
  "rock = \<lparr>hymn_id = 12, title = Some ''Rock of Ages'', lyrics = Some ''Solid Ground'',
            audio = [], mood = []\<rparr>"

definition anchor :: hymn where
  "anchor = \<lparr>hymn_id = 130, title = Some ''Hope'', lyrics = None, audio = [], mood = []\<rparr>"

definition three_items :: app where
  "three_items =
     fresh\<lparr>hymns := [grace, rock, anchor],
           lyricsCache := (\<lambda>i. None)(130 \<mapsto> ''The Anchor Holds'')\<rparr>"

text \<open>
  The characters that delimit markup and attribute values, the fixed text of the
  card template, the tags that enclose the title and the preview, the preview of a
  card (the first 100 characters of the body), and a hymn whose title and lyrics are
  full of markup.
\<close>

definition markup_chars :: "char set" where
  "markup_chars = {CHR ''<'', CHR ''>'', CHR 0x22, CHR 0x27}"

definition card_template :: string where
  "card_template =
     card_head @ card_after_number @ card_after_title @ card_after_preview @
     card_favorite_attrs @ card_icon @ card_after_icon @ card_tail"

definition title_open :: string where
  \<open>title_open = ''<h3 class="hymn-title">''\<close>

definition title_close :: string where
  "title_close = ''</h3>''"

definition preview_open :: string where
  \<open>preview_open = ''<p class="hymn-preview">''\<close>

definition preview_close :: string where
  "preview_close = ''</p>''"

definition preview_of :: "(int \<Rightarrow> string option) \<Rightarrow> hymn \<Rightarrow> string" where
  "preview_of cache h = take 100 (case item_body cache h of None \<Rightarrow> [] | Some b \<Rightarrow> b)"

definition tagged :: hymn where
  \<open>tagged = \<lparr>hymn_id = 8, title = Some ''<b>Tom & "Jerry"</b>'',
              lyrics = Some ''<i>Hi</i>'', audio = [], mood = []\<rparr>\<close>




text \<open>
  A value of \<^verbatim>\<open>favorites\<close> that has the method \<^verbatim>\<open>includes\<close>: an array or a string.
  The states in which the refresh of the lists raises: the catalog is not empty, and
  \<^verbatim>\<open>favorites\<close> has no \<^verbatim>\<open>includes\<close>, or \<^verbatim>\<open>notes\<close> is \<^verbatim>\<open>null\<close>, or a mood filter is
  set and \<^verbatim>\<open>moods\<close> is \<^verbatim>\<open>null\<close>. The states whose collections have their shapes: a
  list and two mappings.
\<close>

fun has_includes :: "json \<Rightarrow> bool" where
  "has_includes (JArr xs) = True"
| "has_includes (JStr s) = True"
| "has_includes other = False"

definition refresh_raises :: "app \<Rightarrow> bool" where
  "refresh_raises st =
     (hymns st \<noteq> [] \<and>
      (\<not> has_includes (favorites st) \<or> notes_obj st = JNull \<or>
       (currentMoodFilter st \<noteq> [] \<and> currentMoodFilter st \<noteq> ''all'' \<and> moods st = JNull)))"









section \<open>Properties\<close>

subsection \<open>Startup\<close>

lemma js_or_slot:
  "parsable slot \<Longrightarrow>
   js_or (Some (case slot of None \<Rightarrow> JNull | Some (JsonText v) \<Rightarrow> v
                | Some (NotJson s) \<Rightarrow> JNull)) d
     = slot_default slot d"
  by (cases slot rule: parsable.cases) (simp_all add: js_or_def slot_default_def)

lemma parse_item_parsable:
  "parse_item ls k =
     (if parsable (ls k)
      then Inr (case ls k of None \<Rightarrow> JNull | Some (JsonText v) \<Rightarrow> v
                | Some (NotJson s) \<Rightarrow> JNull)
      else Inl SyntaxError)"
  by (cases "ls k" rule: parsable.cases) (simp_all add: parse_item_def)

text \<open>
  C2 (as amended). The startup reads the three slots one after the other. If each of
  them is missing or holds JSON, every collection is a function of its own slot alone:
  the empty form for a missing slot and for a falsy JSON value, and otherwise the
  parsed value as it is (whatever its shape). If one of them holds a text that does
  not parse, the startup raises SyntaxError and there is no collection at all.
\<close>

theorem init_collections_by_slot:
  "init_collections ls =
     (if parsable (ls ''favorites'') \<and> parsable (ls ''notes'') \<and> parsable (ls ''moods'')
      then Inr (slot_default (ls ''favorites'') (JArr []),
                slot_default (ls ''notes'') (JObj []),
                slot_default (ls ''moods'') (JObj []))
      else Inl SyntaxError)"
  unfolding init_collections_def
  by (simp add: parse_item_parsable js_or_slot)

theorem init_collections_witness:
  "init_collections null_notes = Inr (JArr [JNum 1, JNum 2], JObj [], JObj [])"
  using init_collections_by_slot [of null_notes]
  by (simp add: slot_default_def null_notes_def empty_storage_def)

text \<open>
  C2 as stated fails: with valid favorites and notes that do not parse, the startup
  does not yield the favorites and an empty note map; it raises.
\<close>

theorem init_collections_counterexample:
  "init_collections corrupt_notes = Inl SyntaxError"
  by (simp add: init_collections_def parse_item_def corrupt_notes_def empty_storage_def)

subsection \<open>Rendering the lists\<close>


lemma createHymnCardDOM_returns:
  "has_includes (favorites st) \<Longrightarrow> \<exists>c. createHymnCardDOM st h = Inr c"
  by (cases "favorites st") (simp_all add: createHymnCardDOM_def)

lemma renderHymnsList_returns:
  "has_includes (favorites st) \<Longrightarrow> \<exists>cs. renderHymnsList st hs = Inr cs"
proof (induction hs)
  case Nil
  then show ?case by simp
next
  case (Cons h hs)
  from Cons.prems obtain c where "createHymnCardDOM st h = Inr c"
    using createHymnCardDOM_returns by blast
  moreover from Cons obtain cs where "renderHymnsList st hs = Inr cs"
    by blast
  ultimately show ?case by simp
qed


lemma filter_raising_returns:
  "(\<And>x. x \<in> set xs \<Longrightarrow> \<exists>b. p x = Inr b) \<Longrightarrow> \<exists>ys. filter_raising p xs = Inr ys"
proof (induction xs)
  case Nil
  then show ?case by simp
next
  case (Cons x xs)
  from Cons.prems obtain b where "p x = Inr b"
    by auto
  moreover from Cons obtain ys where "filter_raising p xs = Inr ys"
    by auto
  ultimately show ?case by simp
qed

lemma filter_raising_raises:
  "xs \<noteq> [] \<Longrightarrow> p (hd xs) = Inl e \<Longrightarrow> filter_raising p xs = Inl e"
  by (cases xs) simp_all

lemma updateFavoritesDisplay_returns:
  assumes "has_includes (favorites st)"
  shows "\<exists>cs. updateFavoritesDisplay st = Inr cs"
proof -
  have "\<exists>b. favorites_includes (favorites st) i = Inr b" for i
    using assms by (cases "favorites st") simp_all
  then obtain ys
    where "filter_raising (\<lambda>h. favorites_includes (favorites st) (hymn_id h)) (hymns st) = Inr ys"
    using filter_raising_returns [of "hymns st" "\<lambda>h. favorites_includes (favorites st) (hymn_id h)"]
    by blast
  then show ?thesis
    using renderHymnsList_returns [OF assms] by (simp add: updateFavoritesDisplay_def)
qed

lemma updateNotesDisplay_returns:
  assumes "has_includes (favorites st)" and "notes_obj st \<noteq> JNull"
  shows "\<exists>cs. updateNotesDisplay st = Inr cs"
proof -
  obtain ys
    where "filter_raising (\<lambda>h. notes_entry_truthy (notes_obj st) (hymn_id h)) (hymns st) = Inr ys"
    using filter_raising_returns
      [of "hymns st" "\<lambda>h. notes_entry_truthy (notes_obj st) (hymn_id h)"] assms(2)
    by (auto simp: notes_entry_truthy_def)
  then show ?thesis
    using renderHymnsList_returns [OF assms(1)] by (simp add: updateNotesDisplay_def)
qed

lemma updateNotesDisplay_raises:
  "hymns st \<noteq> [] \<Longrightarrow> notes_obj st = JNull \<Longrightarrow> updateNotesDisplay st = Inl TypeError"
  by (simp add: updateNotesDisplay_def filter_raising_raises notes_entry_truthy_def)

lemma updateFavoritesDisplay_raises:
  "hymns st \<noteq> [] \<Longrightarrow> \<not> has_includes (favorites st) \<Longrightarrow>
   updateFavoritesDisplay st = Inl TypeError"
proof -
  assume ne: "hymns st \<noteq> []" and no: "\<not> has_includes (favorites st)"
  from no have "favorites_includes (favorites st) (hymn_id (hd (hymns st))) = Inl TypeError"
    by (cases "favorites st") simp_all
  with ne show ?thesis
    by (simp add: updateFavoritesDisplay_def filter_raising_raises)
qed


lemma importData_refresh_result:
  "importData_refresh st = Inl TypeError \<and> refresh_raises st \<or>
   (\<exists>cs. importData_refresh st = Inr cs) \<and> \<not> refresh_raises st"
proof (cases "hymns st = []")
  case True
  then show ?thesis
    by (simp add: importData_refresh_def and_then_def updateFavoritesDisplay_def
        updateNotesDisplay_def updateMoodDisplay_render_def updateMoodDisplay_def
        refresh_raises_def)
next
  case ne: False
  show ?thesis
  proof (cases "has_includes (favorites st)")
    case False
    with ne show ?thesis
      by (simp add: importData_refresh_def and_then_def updateFavoritesDisplay_raises
          refresh_raises_def)
  next
    case inc: True
    obtain a where a: "renderHymnsList st (hymns st) = Inr a"
      using renderHymnsList_returns [OF inc] by blast
    obtain b where b: "updateFavoritesDisplay st = Inr b"
      using updateFavoritesDisplay_returns [OF inc] by blast
    show ?thesis
    proof (cases "notes_obj st = JNull")
      case True
      with ne inc a b show ?thesis
        by (simp add: importData_refresh_def and_then_def updateNotesDisplay_raises
            refresh_raises_def)
    next
      case False
      obtain c where c: "updateNotesDisplay st = Inr c"
        using updateNotesDisplay_returns [OF inc False] by blast
      obtain d where d: "renderHymnsList st (updateMoodDisplay st) = Inr d"
        using renderHymnsList_returns [OF inc] by blast
      from ne inc a b c d False show ?thesis
        by (simp add: importData_refresh_def and_then_def updateMoodDisplay_render_def
            refresh_raises_def)
    qed
  qed
qed

subsection \<open>Import and export\<close>

lemma importData_result:
  "importData file st =
     (case importData_body file st of
        Inl e \<Rightarrow> st\<lparr>toast := Some ''Import failed''\<rparr>
      | Inr st' \<Rightarrow>
          st'\<lparr>toast := Some (if refresh_raises st' then ''Import failed''
                               else ''Data imported'')\<rparr>)"
proof (cases "importData_body file st")
  case (Inl e)
  then show ?thesis by (simp add: importData_def)
next
  case (Inr st')
  with importData_refresh_result [of st'] show ?thesis
    by (auto simp: importData_def)
qed

text \<open>
  C1. The claim asks that a field of the wrong shape leaves its collection alone.
  \<^verbatim>\<open>importData\<close> checks the shape of \<^verbatim>\<open>favorites\<close> only; for \<^verbatim>\<open>notes\<close> and
  \<^verbatim>\<open>moods\<close> it takes any truthy value. On the document of the claim the favorites
  become [1, 2] and the moods stay, but the note map becomes the string, which is
  also written to the storage, and the toast reports \<^verbatim>\<open>Data imported\<close>.
\<close>

theorem importData_string_notes:
  "importData
     (JsonText (JObj [(''favorites'', JArr [JNum 1, JNum 2]),
                      (''notes'', JStr ''not-an-object'')]))
     annotated
   = annotated\<lparr>favorites := JArr [JNum 1, JNum 2], notes_obj := JStr ''not-an-object'',
       localStorage := empty_storage
         (''favorites'' \<mapsto> JsonText (JArr [JNum 1, JNum 2]),
          ''notes'' \<mapsto> JsonText (JStr ''not-an-object''),
          ''moods'' \<mapsto> JsonText (JObj [(''3'', JStr ''calm'')])),
       toast := Some ''Data imported''\<rparr>"
  by (simp add: importData_result importData_body_def js_or_def JSON_stringify_def
      refresh_raises_def annotated_def fresh_def empty_storage_def Let_def)

lemma js_or_same: "js_or (Some v) v = v"
  by (simp add: js_or_def)

lemma import_of_export:
  "importData_body (fst (exportData st)) (snd (exportData st)) =
     Inr (st\<lparr>toast := Some ''Data exported'', localStorage := persist_all st\<rparr>)"
  by (cases "favorites st")
     (simp_all add: importData_body_def exportData_def JSON_stringify_def js_or_same
        persist_all_def Let_def)

lemma round_trip_state:
  "round_trip st =
     st\<lparr>toast := Some (if refresh_raises st then ''Import failed'' else ''Data imported''),
        localStorage := persist_all st\<rparr>"
  by (simp add: round_trip_def importData_result import_of_export refresh_raises_def)

lemma persist_all_synced: "(persist_all st = localStorage st) = synced st"
proof
  assume "persist_all st = localStorage st"
  then have "persist_all st k = localStorage st k" for k
    by simp
  from this [of "''favorites''"] this [of "''notes''"] this [of "''moods''"]
  show "synced st"
    by (simp add: synced_def persist_all_def)
next
  assume "synced st"
  then show "persist_all st = localStorage st"
    by (auto simp: synced_def persist_all_def fun_eq_iff)
qed

text \<open>
  C9 (as amended). For every state, importing the exported file leaves the three
  collections (and the catalog) as they were, and leaves in each of the three slots
  the serialization of its collection, and every other key of the storage as it was.
  So the persisted value of a slot is the same before and after exactly when the
  slot already held the serialization of its collection, and the storage is the
  same exactly when all three slots did. The toast reports the import, or its
  failure when the lists cannot be rendered. The export itself changes nothing but
  the toast, and what it hands out is a JSON text of the three collections: a
  serialized copy, which holds no reference to them.
\<close>

theorem round_trip_collections:
  "favorites (round_trip st) = favorites st \<and>
   notes_obj (round_trip st) = notes_obj st \<and>
   moods (round_trip st) = moods st \<and>
   hymns (round_trip st) = hymns st \<and>
   localStorage (round_trip st) = persist_all st \<and>
   localStorage (round_trip st) ''favorites'' = Some (JSON_stringify (favorites st)) \<and>
   localStorage (round_trip st) ''notes'' = Some (JSON_stringify (notes_obj st)) \<and>
   localStorage (round_trip st) ''moods'' = Some (JSON_stringify (moods st)) \<and>
   (k \<noteq> ''favorites'' \<and> k \<noteq> ''notes'' \<and> k \<noteq> ''moods'' \<longrightarrow>
      localStorage (round_trip st) k = localStorage st k) \<and>
   (localStorage (round_trip st) ''favorites'' = localStorage st ''favorites'') =
     (localStorage st ''favorites'' = Some (JSON_stringify (favorites st))) \<and>
   (localStorage (round_trip st) ''notes'' = localStorage st ''notes'') =
     (localStorage st ''notes'' = Some (JSON_stringify (notes_obj st))) \<and>
   (localStorage (round_trip st) ''moods'' = localStorage st ''moods'') =
     (localStorage st ''moods'' = Some (JSON_stringify (moods st))) \<and>
   (localStorage (round_trip st) = localStorage st) = synced st \<and>
   (synced st \<longrightarrow> localStorage (round_trip st) = localStorage st) \<and>
   fst (exportData st) =
     JSON_stringify (JObj [(''favorites'', favorites st), (''notes'', notes_obj st),
                           (''moods'', moods st)]) \<and>
   snd (exportData st) = st\<lparr>toast := Some ''Data exported''\<rparr> \<and>
   toast (round_trip st) =
     Some (if refresh_raises st then ''Import failed'' else ''Data imported'')"
proof -
  have slots: "localStorage (round_trip st) = persist_all st"
    by (simp add: round_trip_state)
  have whole: "(localStorage (round_trip st) = localStorage st) = synced st"
    by (simp add: slots persist_all_synced)
  have each: "persist_all st ''favorites'' = Some (JSON_stringify (favorites st))"
    "persist_all st ''notes'' = Some (JSON_stringify (notes_obj st))"
    "persist_all st ''moods'' = Some (JSON_stringify (moods st))"
    by (simp_all add: persist_all_def)
  have rest: "k \<noteq> ''favorites'' \<and> k \<noteq> ''notes'' \<and> k \<noteq> ''moods'' \<longrightarrow>
      persist_all st k = localStorage st k"
    by (simp add: persist_all_def)
  have same: "(Some v = localStorage st key) = (localStorage st key = Some v)" for v key
    by auto
  show ?thesis
    using whole rest
    by (simp add: slots each same round_trip_state exportData_def)
qed

theorem round_trip_witness:
  "synced annotated \<and>
   localStorage (round_trip annotated) = localStorage annotated \<and>
   favorites (round_trip annotated) = JArr [JNum 3] \<and>
   notes_obj (round_trip annotated) = JObj [(''3'', JStr ''x'')] \<and>
   moods (round_trip annotated) = JObj [(''3'', JStr ''calm'')] \<and>
   localStorage two_favorites ''favorites'' = Some (JsonText (JArr [JNum 1, JNum 2])) \<and>
   localStorage (round_trip two_favorites) ''favorites'' = localStorage two_favorites ''favorites'' \<and>
   localStorage two_favorites ''notes'' = None \<and>
   localStorage (round_trip two_favorites) ''notes'' = Some (JsonText (JObj [])) \<and>
   localStorage (round_trip two_favorites) ''darkMode'' = localStorage two_favorites ''darkMode''"
proof -
  have s: "synced annotated"
    by (simp add: synced_def annotated_def JSON_stringify_def empty_storage_def)
  have v: "favorites annotated = JArr [JNum 3]"
    "notes_obj annotated = JObj [(''3'', JStr ''x'')]"
    "moods annotated = JObj [(''3'', JStr ''calm'')]"
    by (simp_all add: annotated_def)
  note r = round_trip_collections [of annotated]
  have a: "localStorage (round_trip annotated) = localStorage annotated"
    using r [THEN conjunct2, THEN conjunct2, THEN conjunct2, THEN conjunct2, THEN conjunct2, THEN conjunct2, THEN conjunct2, THEN conjunct2, THEN conjunct2, THEN conjunct2, THEN conjunct2, THEN conjunct2, THEN conjunct2, THEN conjunct1] s by simp
  have b: "favorites (round_trip annotated) = JArr [JNum 3]"
    using r [THEN conjunct1] v by simp
  have c: "notes_obj (round_trip annotated) = JObj [(''3'', JStr ''x'')]"
    using r [THEN conjunct2, THEN conjunct1] v by simp
  have d: "moods (round_trip annotated) = JObj [(''3'', JStr ''calm'')]"
    using r [THEN conjunct2, THEN conjunct2, THEN conjunct1] v by simp
  have f: "localStorage two_favorites ''favorites'' = Some (JsonText (JArr [JNum 1, JNum 2]))"
    "localStorage two_favorites ''notes'' = None"
    by (simp_all add: two_favorites_def fresh_def empty_storage_def)
  have g: "JSON_stringify (favorites two_favorites) = JsonText (JArr [JNum 1, JNum 2])"
    "JSON_stringify (notes_obj two_favorites) = JsonText (JObj [])"
    by (simp_all add: two_favorites_def fresh_def JSON_stringify_def)
  note t = round_trip_collections [of two_favorites "''darkMode''"]
  have tf: "localStorage (round_trip two_favorites) ''favorites'' =
      localStorage two_favorites ''favorites''"
    using t [THEN conjunct2, THEN conjunct2, THEN conjunct2, THEN conjunct2, THEN conjunct2, THEN conjunct1] f g by simp
  have tn: "localStorage (round_trip two_favorites) ''notes'' = Some (JsonText (JObj []))"
    using t [THEN conjunct2, THEN conjunct2, THEN conjunct2, THEN conjunct2, THEN conjunct2, THEN conjunct2, THEN conjunct1] g by simp
  have td: "localStorage (round_trip two_favorites) ''darkMode'' =
      localStorage two_favorites ''darkMode''"
    using t [THEN conjunct2, THEN conjunct2, THEN conjunct2, THEN conjunct2, THEN conjunct2, THEN conjunct2, THEN conjunct2, THEN conjunct2, THEN conjunct1] by simp
  from s a b c d f tf tn td show ?thesis
    by simp
qed

text \<open>
  C9 as stated fails on the persisted values: after a start with an empty storage no
  slot is written, and the round trip writes all three.
\<close>

theorem round_trip_counterexample:
  "localStorage fresh ''favorites'' = None \<and>
   localStorage (round_trip fresh) ''favorites'' = Some (JsonText (JArr []))"
  by (simp add: round_trip_state persist_all_def JSON_stringify_def fresh_def empty_storage_def)

subsection \<open>Favorites\<close>

lemma indexOf_lower: "- 1 \<le> indexOf xs v"
  by (induction xs) (auto simp: Let_def)

lemma indexOf_absent: "(indexOf xs v = - 1) = (v \<notin> set xs)"
proof (induction xs)
  case Nil
  then show ?case by simp
next
  case (Cons x xs)
  have "indexOf xs v + 1 \<noteq> - 1"
    using indexOf_lower [of xs v] by linarith
  with Cons show ?case
    by (auto simp: Let_def)
qed

lemma indexOf_splice: "v \<in> set xs \<Longrightarrow> splice1 xs (nat (indexOf xs v)) = remove1 v xs"
proof (induction xs)
  case Nil
  then show ?case by simp
next
  case (Cons x xs)
  show ?case
  proof (cases "x = v")
    case True
    then show ?thesis by (simp add: splice1_def)
  next
    case False
    with Cons.prems have mem: "v \<in> set xs" by simp
    then have found: "indexOf xs v \<noteq> - 1" by (simp add: indexOf_absent)
    with indexOf_lower [of xs v] have "0 \<le> indexOf xs v" by linarith
    then have "nat (indexOf xs v + 1) = Suc (nat (indexOf xs v))" by simp
    with False mem Cons.IH found show ?thesis
      by (simp add: splice1_def Let_def)
  qed
qed

lemma toggleFavorite_array:
  "favorites st = JArr xs \<Longrightarrow>
   toggleFavorite i st =
     Inr (None,
          st\<lparr>favorites := JArr (toggled i xs),
             localStorage :=
               (localStorage st)(''favorites'' \<mapsto> JSON_stringify (JArr (toggled i xs))),
             toast := Some (if JNum i \<in> set xs then ''Removed from Favorites''
                            else ''Added to Favorites'')\<rparr>)"
  by (simp add: toggleFavorite_def Let_def indexOf_absent indexOf_splice toggled_def)



text \<open>
  C4 (as amended). On a favorites array, \<^verbatim>\<open>toggleFavorite(id)\<close> appends the id when
  it is absent and removes its first occurrence when it is present, writes the whole
  new array to the slot of the favorites before it returns, and returns nothing: the
  value of the call is \<^verbatim>\<open>undefined\<close>, not a boolean. The new membership is the
  negation of the old one when the array has no duplicates.
\<close>

theorem toggleFavorite_effect:
  "favorites st = JArr xs \<Longrightarrow>
   toggleFavorite i st =
     Inr (None,
          st\<lparr>favorites := JArr (toggled i xs),
             localStorage :=
               (localStorage st)(''favorites'' \<mapsto> JSON_stringify (JArr (toggled i xs))),
             toast := Some (if JNum i \<in> set xs then ''Removed from Favorites''
                            else ''Added to Favorites'')\<rparr>) \<and>
   (JNum i \<notin> set xs \<longrightarrow> toggled i xs = xs @ [JNum i]) \<and>
   (JNum i \<in> set xs \<longrightarrow> toggled i xs = remove1 (JNum i) xs) \<and>
   (distinct xs \<longrightarrow> (JNum i \<in> set (toggled i xs)) = (JNum i \<notin> set xs))"
proof -
  assume arr: "favorites st = JArr xs"
  have "distinct xs \<longrightarrow> (JNum i \<in> set (toggled i xs)) = (JNum i \<notin> set xs)"
    by (simp add: toggled_def)
  moreover have "JNum i \<notin> set xs \<longrightarrow> toggled i xs = xs @ [JNum i]"
    and "JNum i \<in> set xs \<longrightarrow> toggled i xs = remove1 (JNum i) xs"
    by (simp_all add: toggled_def)
  ultimately show ?thesis
    using toggleFavorite_array [OF arr] by blast
qed

theorem toggleFavorite_witness:
  "toggleFavorite 1 two_favorites =
     Inr (None,
          two_favorites\<lparr>favorites := JArr [JNum 2],
             localStorage := empty_storage(''favorites'' \<mapsto> JsonText (JArr [JNum 2])),
             toast := Some ''Removed from Favorites''\<rparr>) \<and>
   toggled 1 [JNum 1, JNum 2] = remove1 (JNum 1) [JNum 1, JNum 2] \<and>
   JNum 1 \<notin> set (toggled 1 [JNum 1, JNum 2]) \<and>
   toggleFavorite 3 two_favorites =
     Inr (None,
          two_favorites\<lparr>favorites := JArr [JNum 1, JNum 2, JNum 3],
             localStorage :=
               empty_storage(''favorites'' \<mapsto> JsonText (JArr [JNum 1, JNum 2, JNum 3])),
             toast := Some ''Added to Favorites''\<rparr>)"
proof -
  have arr: "favorites two_favorites = JArr [JNum 1, JNum 2]"
    by (simp add: two_favorites_def)
  have present: "JNum 1 \<in> set [JNum 1, JNum 2]" and absent: "JNum 3 \<notin> set [JNum 1, JNum 2]"
    and d: "distinct [JNum 1, JNum 2]"
    by simp_all
  note remove = toggleFavorite_effect [OF arr, of 1]
  note add = toggleFavorite_effect [OF arr, of 3]
  from remove present have r1: "toggled 1 [JNum 1, JNum 2] = remove1 (JNum 1) [JNum 1, JNum 2]"
    by blast
  from remove present d have r2: "JNum 1 \<notin> set (toggled 1 [JNum 1, JNum 2])"
    by blast
  from add absent have a1: "toggled 3 [JNum 1, JNum 2] = [JNum 1, JNum 2] @ [JNum 3]"
    by blast
  from remove have "toggleFavorite 1 two_favorites =
     Inr (None,
          two_favorites\<lparr>favorites := JArr (toggled 1 [JNum 1, JNum 2]),
             localStorage := (localStorage two_favorites)
               (''favorites'' \<mapsto> JSON_stringify (JArr (toggled 1 [JNum 1, JNum 2]))),
             toast := Some (if JNum 1 \<in> set [JNum 1, JNum 2] then ''Removed from Favorites''
                            else ''Added to Favorites'')\<rparr>)"
    by blast
  moreover from add have "toggleFavorite 3 two_favorites =
     Inr (None,
          two_favorites\<lparr>favorites := JArr (toggled 3 [JNum 1, JNum 2]),
             localStorage := (localStorage two_favorites)
               (''favorites'' \<mapsto> JSON_stringify (JArr (toggled 3 [JNum 1, JNum 2]))),
             toast := Some (if JNum 3 \<in> set [JNum 1, JNum 2] then ''Removed from Favorites''
                            else ''Added to Favorites'')\<rparr>)"
    by blast
  ultimately show ?thesis
    using r2 by (simp add: r1 a1 JSON_stringify_def two_favorites_def)
qed

text \<open>
  C4 as stated fails on the returned value: adding an id to the empty favorites
  returns \<^verbatim>\<open>undefined\<close>, not \<^verbatim>\<open>true\<close>.
\<close>

theorem toggleFavorite_counterexample:
  "call_value (toggleFavorite 1 fresh) = Inr None"
  by (simp add: call_value_def toggleFavorite_def fresh_def Let_def)




subsection \<open>Notes\<close>

lemma trim_idem: "trim (trim s) = trim s"
proof -
  define u where "u = dropWhile is_space s"
  define w where "w = dropWhile is_space (rev u)"
  have t: "trim s = rev w"
    by (simp add: trim_def u_def w_def)
  have front: "dropWhile is_space (rev w) = rev w"
  proof (cases "w = []")
    case True
    then show ?thesis by simp
  next
    case False
    have split: "rev u = takeWhile is_space (rev u) @ w"
      by (simp add: w_def)
    from False split have "last (rev u) = last w"
      by (metis last_appendR)
    moreover from False split have ne: "u \<noteq> []"
      by auto
    ultimately have "last w = hd u"
      by (simp add: last_rev)
    moreover from ne have "\<not> is_space (hd u)"
      unfolding u_def by (rule hd_dropWhile)
    ultimately have "\<not> is_space (hd (rev w))"
      using False by (simp add: hd_rev)
    then show ?thesis
      by (simp add: dropWhile_eq_self_iff)
  qed
  have rear: "dropWhile is_space w = w"
    unfolding w_def by (simp add: dropWhile_dropWhile1)
  show ?thesis
    unfolding t by (simp add: trim_def front rear)
qed

lemma update_values: "p \<in> set (AList.update k v ps) \<Longrightarrow> p = (k, v) \<or> p \<in> set ps"
  by (induction ps) (auto split: if_splits)

lemma delete_values: "p \<in> set (AList.delete k ps) \<Longrightarrow> p \<in> set ps"
  by (induction ps) (auto split: if_splits)

lemma saveNote_object:
  assumes "currentHymn st = Some h" and "notes_obj st = JObj ps"
  shows "saveNote typed st =
     st\<lparr>notes_obj := JObj (if trim typed = [] then AList.delete (String_of (hymn_id h)) ps
                           else AList.update (String_of (hymn_id h)) (JStr (trim typed)) ps),
        localStorage := (localStorage st)(''notes'' \<mapsto> JSON_stringify
            (JObj (if trim typed = [] then AList.delete (String_of (hymn_id h)) ps
                   else AList.update (String_of (hymn_id h)) (JStr (trim typed)) ps))),
        toast := Some (if trim typed = [] then ''Note cleared'' else ''Note saved'')\<rparr>"
  using assms by (simp add: saveNote_def Let_def)

text \<open>
  C6. With a hymn open and the notes an object, \<^verbatim>\<open>saveNote\<close> trims the text of the
  textarea; the entry of the hymn's id becomes absent and the toast is
  \<^verbatim>\<open>Note cleared\<close> when the trimmed text is empty, and becomes the trimmed text with
  the toast \<^verbatim>\<open>Note saved\<close> otherwise; every other entry stays; the new object is
  written to the slot of the notes. So the id is present afterwards iff the note is
  not empty after trimming, the invariant of the note map is kept, and a blank note
  saved after any other note leaves no entry for the id.
\<close>

theorem saveNote_effect:
  assumes cur: "currentHymn st = Some h" and obj: "notes_obj st = JObj ps"
    and k: "k = String_of (hymn_id h)"
  shows "entries (notes_obj (saveNote typed st)) =
           (entries (notes_obj st))
             (k := if trim typed = [] then None else Some (JStr (trim typed))) \<and>
         (k \<in> dom (entries (notes_obj (saveNote typed st)))) = (trim typed \<noteq> []) \<and>
         toast (saveNote typed st) =
           Some (if trim typed = [] then ''Note cleared'' else ''Note saved'') \<and>
         localStorage (saveNote typed st) =
           (localStorage st)(''notes'' \<mapsto> JSON_stringify (notes_obj (saveNote typed st))) \<and>
         (note_invariant (notes_obj st) \<longrightarrow> note_invariant (notes_obj (saveNote typed st))) \<and>
         (trim typed2 = [] \<longrightarrow>
            entries (notes_obj (saveNote typed2 (saveNote typed st))) k = None)"
proof -
  note s = saveNote_object [OF cur obj, of typed]
  have e: "entries (notes_obj (saveNote typed st)) =
           (entries (notes_obj st))
             (k := if trim typed = [] then None else Some (JStr (trim typed)))"
    by (simp add: s obj k update_conv' delete_conv')
  have inv: "note_invariant (notes_obj (saveNote typed st))" if "note_invariant (notes_obj st)"
  proof (cases "trim typed = []")
    case True
    with that show ?thesis
      by (auto simp: s obj list_all_iff dest: delete_values)
  next
    case False
    then have "nonblank (JStr (trim typed))"
      by (simp add: trim_idem)
    with that False show ?thesis
      by (auto simp: s obj list_all_iff dest!: update_values)
  qed
  have cur': "currentHymn (saveNote typed st) = Some h"
    by (simp add: s cur)
  obtain ps' where obj': "notes_obj (saveNote typed st) = JObj ps'"
    by (simp add: s)
  have again: "entries (notes_obj (saveNote typed2 (saveNote typed st))) k = None"
    if "trim typed2 = []"
    using that by (simp add: saveNote_object [OF cur' obj'] k delete_conv')
  from e inv again show ?thesis
    by (simp add: s)
qed

theorem saveNote_witness:
  "entries (notes_obj (saveNote '' hi '' open_hymn)) ''3'' = Some (JStr ''hi'') \<and>
   toast (saveNote '' hi '' open_hymn) = Some ''Note saved'' \<and>
   note_invariant (notes_obj (saveNote '' hi '' open_hymn)) \<and>
   entries (notes_obj (saveNote ''  '' (saveNote '' hi '' open_hymn))) ''3'' = None"
proof -
  have cur: "currentHymn open_hymn = Some (sampleHymns ! 2)"
    by (simp add: open_hymn_def)
  have obj: "notes_obj open_hymn = JObj [(''3'', JStr ''x'')]"
    by (simp add: open_hymn_def annotated_def)
  have "String_of 3 = ''3''"
    by code_simp
  then have k: "''3'' = String_of (hymn_id (sampleHymns ! 2))"
    by (simp add: sampleHymns_def)
  have t1: "trim '' hi '' = ''hi''" and t2: "trim ''  '' = []" and t3: "trim ''x'' = ''x''"
    by code_simp+
  have inv: "note_invariant (notes_obj open_hymn)"
    by (simp add: obj t3)
  show ?thesis
    using saveNote_effect [OF cur obj k, of "'' hi ''" "''  ''"] inv
    by (simp add: t1 t2)
qed

subsection \<open>Decimal numerals\<close>

lemma digit_char_code: "d < 10 \<Longrightarrow> (of_char (digit_char d) :: nat) = 48 + d"
  by (simp add: digit_char_def)

lemma digits_chars: "c \<in> set (digits n) \<Longrightarrow> 48 \<le> (of_char c :: nat) \<and> (of_char c :: nat) \<le> 57"
proof (induction n rule: digits.induct)
  case (1 n)
  show ?case
  proof (cases "n < 10")
    case True
    with "1.prems" have "c = digit_char n"
      by (simp add: digits.simps)
    with True show ?thesis
      by (simp add: digit_char_code)
  next
    case False
    with "1.prems" have "c \<in> set (digits (n div 10)) \<or> c = digit_char (n mod 10)"
      by (subst (asm) digits.simps) auto
    then show ?thesis
    proof
      assume "c \<in> set (digits (n div 10))"
      with False "1.IH" show ?thesis by simp
    next
      assume "c = digit_char (n mod 10)"
      then show ?thesis by (simp add: digit_char_code)
    qed
  qed
qed

lemma digits_nonempty: "digits n \<noteq> []"
  by (subst digits.simps) simp

lemma number_of_digits_digits: "number_of_digits (digits n) = n"
proof (induction n rule: digits.induct)
  case (1 n)
  show ?case
  proof (cases "n < 10")
    case True
    then show ?thesis
      by (simp add: digits.simps number_of_digits_def digit_value_def digit_char_code)
  next
    case False
    with "1.IH" have ih: "number_of_digits (digits (n div 10)) = n div 10"
      by simp
    have "number_of_digits (digits n) =
          10 * number_of_digits (digits (n div 10)) + digit_value (digit_char (n mod 10))"
      using False by (subst digits.simps) (simp add: number_of_digits_def)
    also have "\<dots> = 10 * (n div 10) + n mod 10"
      by (simp add: ih digit_value_def digit_char_code)
    finally show ?thesis by simp
  qed
qed

lemma Number_of_String_of: "Number_of (String_of i) = i"
proof (cases "i < 0")
  case True
  then show ?thesis
    by (simp add: String_of_def Number_of_def number_of_digits_digits)
next
  case False
  obtain c cs where split: "digits (nat i) = c # cs"
    using digits_nonempty [of "nat i"] by (cases "digits (nat i)") auto
  then have "c \<in> set (digits (nat i))" by simp
  then have "48 \<le> (of_char c :: nat)" by (rule digits_chars [THEN conjunct1])
  then have "c \<noteq> CHR ''-''" by auto
  with False split number_of_digits_digits [of "nat i"] show ?thesis
    by (simp add: String_of_def Number_of_def)
qed

lemma String_of_inject: "(String_of i = String_of j) = (i = j)"
  by (metis Number_of_String_of)

lemma mood_of_put_member:
  "mood_of (put_member (JObj ps) (String_of i) v) j =
     (if j = i then Some v else mood_of (JObj ps) j)"
  by (simp add: mood_of_def update_conv' String_of_inject)

subsection \<open>The mood list\<close>

text \<open>
  C8. With the moods an object and a filter label that is not empty,
  \<^verbatim>\<open>updateMoodDisplay\<close> hands to the renderer the whole catalog for the label
  \<^verbatim>\<open>all\<close>, and otherwise exactly the hymns of the catalog whose entry in the mood map
  is the label, in the order of the catalog. (The guard \<^verbatim>\<open>currentMoodFilter &&\<close>
  takes an empty filter string for no filter at all: the whole catalog is shown.)
\<close>

theorem updateMoodDisplay_spec:
  assumes "moods st = JObj ps" and "currentMoodFilter st = label" and "label \<noteq> []"
  shows "updateMoodDisplay st =
           (if label = ''all'' then hymns st
            else filter (\<lambda>h. mood_of (moods st) (hymn_id h) = Some (JStr label)) (hymns st))"
  using assms by (simp add: updateMoodDisplay_def mood_of_def)

theorem updateMoodDisplay_witness:
  "updateMoodDisplay shuffled = [sampleHymns ! 2, sampleHymns ! 0]"
proof -
  have m: "moods shuffled =
      JObj [(''3'', JStr ''calm''), (''1'', JStr ''calm''), (''5'', JStr ''happy'')]"
    and f: "currentMoodFilter shuffled = ''calm''"
    and h: "hymns shuffled = [sampleHymns ! 4, sampleHymns ! 2, sampleHymns ! 0]"
    by (simp_all add: shuffled_def)
  have ne: "''calm'' \<noteq> []"
    by simp
  have keys: "String_of 5 = ''5''" "String_of 3 = ''3''" "String_of 1 = ''1''"
    by code_simp+
  show ?thesis
    using updateMoodDisplay_spec [OF m f ne]
    by (simp add: m h mood_of_def keys sampleHymns_def)
qed

subsection \<open>Search\<close>

lemma str_includes_sublist: "str_includes s q = sublist q s"
  by (induction s) (simp_all add: sublist_Cons_right)

lemma lower_char_code:
  "(of_char (lower_char c) :: nat) =
     (let n = of_char c in
      if (65 \<le> n \<and> n \<le> 90) \<or> (192 \<le> n \<and> n \<le> 222 \<and> n \<noteq> 215) then n + 32 else n)"
  by (simp add: lower_char_def Let_def)

lemma lower_char_idem: "lower_char (lower_char c) = lower_char c"
proof -
  have "(of_char (lower_char (lower_char c)) :: nat) = of_char (lower_char c)"
    by (subst lower_char_code) (auto simp: lower_char_code Let_def)
  then show ?thesis
    by simp
qed

lemma is_space_lower: "is_space (lower_char c) = is_space c"
  by (auto simp: is_space_def lower_char_code Let_def)

lemma trim_lower: "trim (toLowerCase s) = toLowerCase (trim s)"
proof -
  have comp: "is_space \<circ> lower_char = is_space"
    by (simp add: fun_eq_iff is_space_lower)
  show ?thesis
    by (simp add: trim_def toLowerCase_def dropWhile_map rev_map comp)
qed

lemma toLowerCase_idem: "toLowerCase (toLowerCase s) = toLowerCase s"
  by (simp add: toLowerCase_def lower_char_idem)

lemma sublist_lower:
  "sublist q (toLowerCase s) = (\<exists>us w vs. s = us @ w @ vs \<and> toLowerCase w = q)"
proof
  assume "sublist q (toLowerCase s)"
  then obtain ps ss where "map lower_char s = ps @ q @ ss"
    by (auto simp: sublist_def toLowerCase_def)
  then obtain us r where s: "s = us @ r" and "map lower_char r = q @ ss"
    by (metis map_eq_append_conv)
  then obtain w vs where "r = w @ vs" and "map lower_char w = q"
    by (metis map_eq_append_conv)
  with s show "\<exists>us w vs. s = us @ w @ vs \<and> toLowerCase w = q"
    by (auto simp: toLowerCase_def)
next
  assume "\<exists>us w vs. s = us @ w @ vs \<and> toLowerCase w = q"
  then obtain us w vs where "s = us @ w @ vs" and "toLowerCase w = q"
    by blast
  then have "toLowerCase s = toLowerCase us @ q @ toLowerCase vs"
    by (auto simp: toLowerCase_def)
  then show "sublist q (toLowerCase s)"
    unfolding sublist_def by blast
qed

lemma includes_ci:
  assumes "toLowerCase q = q"
  shows "str_includes (toLowerCase s) q = ci_contains s q"
  using assms by (simp add: str_includes_sublist sublist_lower ci_contains_def)

lemma ci_contains_nonempty: "q \<noteq> [] \<Longrightarrow> ci_contains s q \<Longrightarrow> s \<noteq> []"
  by (auto simp: ci_contains_def toLowerCase_def)

lemma lyricsText_body:
  "lyricsText cache h = (case item_body cache h of None \<Rightarrow> [] | Some b \<Rightarrow> b)"
  by (simp add: lyricsText_def item_body_def split: option.splits)

lemma hymn_matches_spec:
  assumes low: "toLowerCase q = q" and ne: "q \<noteq> []"
  shows "hymn_matches q cache h = item_matches q cache h"
proof -
  have t: "(case title h of None \<Rightarrow> False | Some t \<Rightarrow> t \<noteq> [] \<and> str_includes (toLowerCase t) q)
           = (\<exists>t. title h = Some t \<and> ci_contains t q)"
    using ne by (auto simp: includes_ci [OF low] split: option.splits dest: ci_contains_nonempty)
  have none: "\<not> ci_contains [] q"
    using ne ci_contains_nonempty by blast
  have l: "(lyricsText cache h \<noteq> [] \<and> str_includes (toLowerCase (lyricsText cache h)) q)
           = (\<exists>b. item_body cache h = Some b \<and> ci_contains b q)"
    using ne none
    by (auto simp: lyricsText_body includes_ci [OF low] split: option.splits
        dest: ci_contains_nonempty)
  show ?thesis
    unfolding hymn_matches_def item_matches_def Let_def padStart_def t l
    by auto
qed

text \<open>
  C7. For a catalog whose ids are safe integers, \<^verbatim>\<open>filterHymnsImmediate\<close> hands to
  the renderer the whole catalog when the trimmed, lower-cased query is empty, and
  otherwise exactly the items that match that query in the sense of the
  specification (by the numeral of the id, by the id padded to three digits, by the
  title, or by the inline body, else the cached one), in the order of the catalog.
\<close>

theorem filterHymnsImmediate_spec:
  assumes "\<forall>h \<in> set (hymns st). safe_id (hymn_id h)"
  shows "filterHymnsImmediate query st =
     (if query_of query = [] then hymns st
      else filter (item_matches (query_of query) (lyricsCache st)) (hymns st))"
proof -
  have q: "trim (toLowerCase query) = query_of query"
    by (simp add: query_of_def trim_lower)
  have low: "toLowerCase (query_of query) = query_of query"
    by (simp add: query_of_def toLowerCase_idem)
  show ?thesis
    unfolding filterHymnsImmediate_def q Let_def
    by (simp add: hymn_matches_spec [OF low] cong: filter_cong)
qed

text \<open>
  The example of the specification, in a catalog of three items: the queries
  \<^verbatim>\<open>007\<close> and \<^verbatim>\<open>grace\<close> find the item with id 7 and the title
  \<^verbatim>\<open>Grace Abounds\<close>, and \<^verbatim>\<open>9\<close> finds nothing. A word of an inline body finds its
  item, a word of a cached body finds the item of that id, and a blank query leaves
  the catalog as it is.
\<close>

theorem filterHymnsImmediate_witness:
  "filter (item_matches ''007'' (lyricsCache three_items)) (hymns three_items) = [grace] \<and>
   filter (item_matches ''grace'' (lyricsCache three_items)) (hymns three_items) = [grace] \<and>
   filter (item_matches ''9'' (lyricsCache three_items)) (hymns three_items) = [] \<and>
   filter (item_matches ''solid'' (lyricsCache three_items)) (hymns three_items) = [rock] \<and>
   filter (item_matches ''anchor'' (lyricsCache three_items)) (hymns three_items) = [anchor] \<and>
   filter (item_matches ''o'' (lyricsCache three_items)) (hymns three_items)
     = [grace, rock, anchor] \<and>
   filterHymnsImmediate ''  '' three_items = [grace, rock, anchor]"
proof -
  have safe: "\<forall>h \<in> set (hymns three_items). safe_id (hymn_id h)"
    by (simp add: three_items_def grace_def rock_def anchor_def safe_id_def)
  have run: "filterHymnsImmediate ''007'' three_items = [grace]"
    "filterHymnsImmediate '' Grace'' three_items = [grace]"
    "filterHymnsImmediate ''9'' three_items = []"
    "filterHymnsImmediate ''SOLID '' three_items = [rock]"
    "filterHymnsImmediate ''Anchor'' three_items = [anchor]"
    "filterHymnsImmediate ''o'' three_items = [grace, rock, anchor]"
    by code_simp+
  have q: "query_of ''007'' = ''007''" "query_of '' Grace'' = ''grace''"
    "query_of ''9'' = ''9''" "query_of ''SOLID '' = ''solid''"
    "query_of ''Anchor'' = ''anchor''" "query_of ''o'' = ''o''" "query_of ''  '' = []"
    by code_simp+
  have all: "hymns three_items = [grace, rock, anchor]"
    by (simp add: three_items_def)
  have a: "filter (item_matches ''007'' (lyricsCache three_items)) (hymns three_items) = [grace]"
    using filterHymnsImmediate_spec [OF safe, of "''007''"] by (simp add: run q)
  have b: "filter (item_matches ''grace'' (lyricsCache three_items)) (hymns three_items) = [grace]"
    using filterHymnsImmediate_spec [OF safe, of "'' Grace''"] by (simp add: run q)
  have c: "filter (item_matches ''9'' (lyricsCache three_items)) (hymns three_items) = []"
    using filterHymnsImmediate_spec [OF safe, of "''9''"] by (simp only: run q) simp
  have d: "filter (item_matches ''solid'' (lyricsCache three_items)) (hymns three_items) = [rock]"
    using filterHymnsImmediate_spec [OF safe, of "''SOLID ''"] by (simp add: run q)
  have e: "filter (item_matches ''anchor'' (lyricsCache three_items)) (hymns three_items)
      = [anchor]"
    using filterHymnsImmediate_spec [OF safe, of "''Anchor''"] by (simp add: run q)
  have f: "filter (item_matches ''o'' (lyricsCache three_items)) (hymns three_items)
      = [grace, rock, anchor]"
    using filterHymnsImmediate_spec [OF safe, of "''o''"] by (simp add: run q)
  have g: "filterHymnsImmediate ''  '' three_items = [grace, rock, anchor]"
    using filterHymnsImmediate_spec [OF safe, of "''  ''"] by (simp add: q all)
  from a b c d e f g show ?thesis
    by (simp only: simp_thms)
qed

subsection \<open>Cards\<close>

lemma nth_in_tl: "j < length e \<Longrightarrow> j \<noteq> 0 \<Longrightarrow> e ! j \<in> set (tl e)"
  by (cases e; cases j) auto

lemma amp_first:
  assumes "e \<in> set entities" and "j < length e" and "e ! j = CHR ''&''"
  shows "j = 0"
proof (rule ccontr)
  assume "j \<noteq> 0"
  with assms have "CHR ''&'' \<in> set (tl e)"
    using nth_in_tl [of j e] by simp
  with assms(1) show False
    by (auto simp: entities_def)
qed

lemma escape_char_cases:
  "escape_char c \<in> set entities \<or> (escape_char c = [c] \<and> c \<noteq> CHR ''&'')"
  by (simp add: escape_char_def entities_def)

lemma escape_char_amp:
  "j < length (escape_char c) \<Longrightarrow> escape_char c ! j = CHR ''&'' \<Longrightarrow>
   j = 0 \<and> escape_char c \<in> set entities"
  using escape_char_cases [of c] amp_first [of "escape_char c" j] by auto

lemma escape_char_markup: "c \<in> markup_chars \<Longrightarrow> c \<notin> set (escape_char d)"
  by (auto simp: markup_chars_def escape_char_def split: if_splits)

lemma escapeHtml_concat: "escapeHtml (Some s) = concat (map escape_char s)"
  by (simp add: escapeHtml_def)

lemma escapeHtml_markup: "c \<in> markup_chars \<Longrightarrow> c \<notin> set (escapeHtml t)"
  by (cases t) (auto simp: escapeHtml_def dest: escape_char_markup)

lemma concat_amp:
  "i < length (concat (map escape_char s)) \<Longrightarrow> concat (map escape_char s) ! i = CHR ''&'' \<Longrightarrow>
   \<exists>e \<in> set entities. prefix e (drop i (concat (map escape_char s)))"
proof (induction s arbitrary: i)
  case Nil
  then show ?case by simp
next
  case (Cons c s)
  let ?r = "concat (map escape_char s)"
  show ?case
  proof (cases "i < length (escape_char c)")
    case True
    with Cons.prems have "escape_char c ! i = CHR ''&''"
      by (simp add: nth_append)
    with True have "i = 0" and "escape_char c \<in> set entities"
      using escape_char_amp by blast+
    then show ?thesis
      by (auto intro!: bexI [of _ "escape_char c"])
  next
    case False
    with Cons.prems have "i - length (escape_char c) < length ?r"
      and "?r ! (i - length (escape_char c)) = CHR ''&''"
      by (auto simp: nth_append)
    then have "\<exists>e \<in> set entities. prefix e (drop (i - length (escape_char c)) ?r)"
      by (rule Cons.IH)
    with False show ?thesis
      by simp
  qed
qed

lemma escapeHtml_amp:
  "i < length (escapeHtml t) \<Longrightarrow> escapeHtml t ! i = CHR ''&'' \<Longrightarrow>
   \<exists>e \<in> set entities. prefix e (drop i (escapeHtml t))"
proof (cases t)
  case None
  assume "i < length (escapeHtml t)"
  with None show ?thesis by (simp add: escapeHtml_def)
next
  case (Some s)
  assume "i < length (escapeHtml t)" and "escapeHtml t ! i = CHR ''&''"
  with Some show ?thesis
    using concat_amp [of i s] by (simp add: escapeHtml_concat)
qed

lemma String_of_markup: "c \<in> markup_chars \<Longrightarrow> c \<notin> set (String_of i)"
  by (auto simp: markup_chars_def String_of_def dest!: digits_chars)

lemma count_absent: "c \<notin> set xs \<Longrightarrow> count_list xs c = 0"
  by (simp add: count_list_0_iff)

lemma count_if:
  "count_list (if b then xs else ys) c = (if b then count_list xs c else count_list ys c)"
  by simp

lemma card_markup_count:
  assumes "c \<in> markup_chars"
  shows "count_list (card_markup h preview fav) c = count_list card_template c"
proof -
  have a: "count_list (String_of (hymn_id h)) c = 0"
    "count_list (escapeHtml (title h)) c = 0"
    "count_list (escapeHtml (Some preview)) c = 0"
    using assms by (simp_all add: count_absent String_of_markup escapeHtml_markup)
  have "c \<notin> set ''...''" "c \<notin> set ''Lyrics not available''"
    "c \<notin> set '' active''" "c \<notin> set ''fas''" "c \<notin> set ''far''" "c \<notin> set []"
    using assms by (auto simp: markup_chars_def)
  note b = this [THEN count_absent]
  show ?thesis
    unfolding card_markup_def card_template_def
    by (simp only: count_list_append count_if a b if_cancel add_0_right add_0_left)
qed

lemma template_counts:
  "count_list card_template (CHR ''<'') = 26"
  "count_list card_template (CHR ''>'') = 26"
  "count_list card_template (CHR 0x22) = 30"
  "count_list card_template (CHR 0x27) = 0"
  by code_simp+

lemma card_frame:
  assumes inc: "favorites_includes (favorites st) i = Inr fav"
  shows "\<exists>pre mid post.
      suffix title_open pre \<and> prefix title_close mid \<and> suffix preview_open mid \<and>
      prefix preview_close post \<and>
      (\<forall>m \<in> markup_chars. count_list (pre @ mid @ post) m = count_list card_template m) \<and>
      (\<forall>h. hymn_id h = i \<longrightarrow>
         createHymnCardDOM st h =
           Inr (pre @ escapeHtml (title h) @ mid @
                escapeHtml (Some (preview_of (lyricsCache st) h)) @
                (if preview_of (lyricsCache st) h = [] then ''Lyrics not available''
                 else ''...'') @ post))"
proof -
  define pre where "pre = card_head @ String_of i @ card_after_number"
  define post where "post =
      card_after_preview @ (if fav then '' active'' else []) @ card_favorite_attrs @
      String_of i @ card_icon @ (if fav then ''fas'' else ''far'') @ card_after_icon @
      String_of i @ card_tail"
  have "suffix title_open card_after_number"
    unfolding card_after_number_def title_open_def
    by (intro suffix_appendI) simp
  then have a: "suffix title_open pre"
    unfolding pre_def by (intro suffix_appendI)
  have b: "prefix title_close card_after_title"
    by (simp add: card_after_title_def title_close_def)
  have c: "suffix preview_open card_after_title"
    unfolding card_after_title_def preview_open_def
    by (intro suffix_appendI) simp
  have d: "prefix preview_close post"
    by (simp add: post_def card_after_preview_def preview_close_def)
  have e: "count_list (pre @ card_after_title @ post) m = count_list card_template m"
    if m: "m \<in> markup_chars" for m
  proof -
    have id: "count_list (String_of i) m = 0"
      using m by (simp add: count_absent String_of_markup)
    have "m \<notin> set '' active''" "m \<notin> set ''fas''" "m \<notin> set ''far''" "m \<notin> set []"
      using m by (auto simp: markup_chars_def)
    note fixed = this [THEN count_absent]
    show ?thesis
      unfolding pre_def post_def card_template_def
      by (simp only: count_list_append count_if id fixed if_cancel add_0_right add_0_left)
  qed
  have f: "createHymnCardDOM st h =
           Inr (pre @ escapeHtml (title h) @ card_after_title @
                escapeHtml (Some (preview_of (lyricsCache st) h)) @
                (if preview_of (lyricsCache st) h = [] then ''Lyrics not available''
                 else ''...'') @ post)"
    if "hymn_id h = i" for h
    using that inc
    by (simp add: createHymnCardDOM_def card_markup_def preview_of_def lyricsText_body
        pre_def post_def)
  from a b c d e f show ?thesis
    by blast
qed

text \<open>
  C10. \<^verbatim>\<open>escapeHtml\<close> gives the empty string for an undefined argument and
  otherwise replaces, character by character, each of the five characters by its
  entity and leaves every other character as it is. Its result holds none of
  \<^verbatim>\<open><\<close>, \<^verbatim>\<open>>\<close>, the double and the single quote, and every \<^verbatim>\<open>&\<close> in
  it starts one of the five entities. Every card is a frame that is fixed by the id
  and by the favorite state, with exactly two holes: the escaped title stands between
  the tags of the title, and the escaped preview, followed by the dots or by the
  words \<^verbatim>\<open>Lyrics not available\<close>, stands between the tags of the preview. The title
  and the lyrics reach the card in no other way: the frame is the same for all hymns
  of that id, and the number of each markup character in the frame, and so in the
  card, is that of the template.
\<close>

theorem escapeHtml_spec:
  "escapeHtml None = [] \<and>
   escapeHtml (Some s) = concat (map escape_char s) \<and>
   escape_char (CHR ''&'') = ''&amp;'' \<and>
   escape_char (CHR ''<'') = ''&lt;'' \<and>
   escape_char (CHR ''>'') = ''&gt;'' \<and>
   escape_char (CHR 0x22) = ''&quot;'' \<and>
   escape_char (CHR 0x27) = ''&#39;'' \<and>
   (c \<noteq> CHR ''&'' \<and> c \<notin> markup_chars \<longrightarrow> escape_char c = [c]) \<and>
   (\<forall>m \<in> markup_chars. m \<notin> set (escapeHtml t)) \<and>
   (\<forall>i < length (escapeHtml t). escapeHtml t ! i = CHR ''&'' \<longrightarrow>
      (\<exists>e \<in> set entities. prefix e (drop i (escapeHtml t)))) \<and>
   (createHymnCardDOM st h = Inr html \<longrightarrow>
      (\<exists>fav. html = card_markup h (take 100 (lyricsText (lyricsCache st) h)) fav) \<and>
      (\<forall>m \<in> markup_chars. count_list html m = count_list card_template m)) \<and>
   (favorites_includes (favorites st) n = Inr liked \<and> safe_id n \<longrightarrow>
      (\<exists>pre mid post.
          suffix title_open pre \<and> prefix title_close mid \<and> suffix preview_open mid \<and>
          prefix preview_close post \<and>
          (\<forall>m \<in> markup_chars. count_list (pre @ mid @ post) m = count_list card_template m) \<and>
          (\<forall>x. hymn_id x = n \<longrightarrow>
             createHymnCardDOM st x =
               Inr (pre @ escapeHtml (title x) @ mid @
                    escapeHtml (Some (preview_of (lyricsCache st) x)) @
                    (if preview_of (lyricsCache st) x = [] then ''Lyrics not available''
                     else ''...'') @ post))))"
proof -
  have table: "escape_char (CHR ''&'') = ''&amp;''" "escape_char (CHR ''<'') = ''&lt;''"
    "escape_char (CHR ''>'') = ''&gt;''" "escape_char (CHR 0x22) = ''&quot;''"
    "escape_char (CHR 0x27) = ''&#39;''"
    by (simp_all add: escape_char_def)
  have other: "c \<noteq> CHR ''&'' \<and> c \<notin> markup_chars \<longrightarrow> escape_char c = [c]"
    by (simp add: escape_char_def markup_chars_def)
  have card: "(\<exists>fav. html = card_markup h (take 100 (lyricsText (lyricsCache st) h)) fav) \<and>
      (\<forall>m \<in> markup_chars. count_list html m = count_list card_template m)"
    if "createHymnCardDOM st h = Inr html"
  proof -
    from that obtain fav
      where "html = card_markup h (take 100 (lyricsText (lyricsCache st) h)) fav"
      by (auto simp: createHymnCardDOM_def split: sum.splits)
    then show ?thesis
      by (auto simp: card_markup_count)
  qed
  have first: "escapeHtml None = [] \<and>
   escapeHtml (Some s) = concat (map escape_char s) \<and>
   escape_char (CHR ''&'') = ''&amp;'' \<and>
   escape_char (CHR ''<'') = ''&lt;'' \<and>
   escape_char (CHR ''>'') = ''&gt;'' \<and>
   escape_char (CHR 0x22) = ''&quot;'' \<and>
   escape_char (CHR 0x27) = ''&#39;'' \<and>
   (c \<noteq> CHR ''&'' \<and> c \<notin> markup_chars \<longrightarrow> escape_char c = [c]) \<and>
   (\<forall>m \<in> markup_chars. m \<notin> set (escapeHtml t)) \<and>
   (\<forall>i < length (escapeHtml t). escapeHtml t ! i = CHR ''&'' \<longrightarrow>
      (\<exists>e \<in> set entities. prefix e (drop i (escapeHtml t)))) \<and>
   (createHymnCardDOM st h = Inr html \<longrightarrow>
      (\<exists>fav. html = card_markup h (take 100 (lyricsText (lyricsCache st) h)) fav) \<and>
      (\<forall>m \<in> markup_chars. count_list html m = count_list card_template m))"
    using table other card escapeHtml_markup [of _ t] escapeHtml_amp [of _ t]
    by (simp add: escapeHtml_concat escapeHtml_def)
  have frame: "favorites_includes (favorites st) n = Inr liked \<and> safe_id n \<longrightarrow>
      (\<exists>pre mid post.
          suffix title_open pre \<and> prefix title_close mid \<and> suffix preview_open mid \<and>
          prefix preview_close post \<and>
          (\<forall>m \<in> markup_chars. count_list (pre @ mid @ post) m = count_list card_template m) \<and>
          (\<forall>x. hymn_id x = n \<longrightarrow>
             createHymnCardDOM st x =
               Inr (pre @ escapeHtml (title x) @ mid @
                    escapeHtml (Some (preview_of (lyricsCache st) x)) @
                    (if preview_of (lyricsCache st) x = [] then ''Lyrics not available''
                     else ''...'') @ post)))"
    using card_frame [of st n liked] by blast
  from first frame show ?thesis
    by (intro conjI) (elim conjE, assumption)+
qed

theorem escapeHtml_witness:
  "escapeHtml (title tagged) = ''&lt;b&gt;Tom &amp; &quot;Jerry&quot;&lt;/b&gt;'' \<and>
   escape_char (CHR ''T'') = ''T'' \<and>
   CHR ''<'' \<notin> set (escapeHtml (title tagged)) \<and>
   escapeHtml (title tagged) ! 13 = CHR ''&'' \<and>
   (\<exists>e \<in> set entities. prefix e (drop 13 (escapeHtml (title tagged)))) \<and>
   createHymnCardDOM fresh tagged = Inr (card_markup tagged ''<i>Hi</i>'' False) \<and>
   count_list (card_markup tagged ''<i>Hi</i>'' False) (CHR ''<'') = 26 \<and>
   (\<exists>pre mid post.
      suffix title_open pre \<and> prefix title_close mid \<and> suffix preview_open mid \<and>
      prefix preview_close post \<and>
      count_list (pre @ mid @ post) (CHR ''<'') = 26 \<and>
      createHymnCardDOM fresh tagged =
        Inr (pre @ ''&lt;b&gt;Tom &amp; &quot;Jerry&quot;&lt;/b&gt;'' @ mid @
             ''&lt;i&gt;Hi&lt;/i&gt;'' @ ''...'' @ post) \<and>
      createHymnCardDOM fresh (tagged\<lparr>title := None, lyrics := None\<rparr>) =
        Inr (pre @ mid @ ''Lyrics not available'' @ post))"
proof -
  have esc: "escapeHtml (title tagged) = ''&lt;b&gt;Tom &amp; &quot;Jerry&quot;&lt;/b&gt;''"
    by code_simp
  have amp: "13 < length (escapeHtml (title tagged))" "escapeHtml (title tagged) ! 13 = CHR ''&''"
    by (simp_all add: esc)
  have made: "createHymnCardDOM fresh tagged = Inr (card_markup tagged ''<i>Hi</i>'' False)"
    by (simp add: createHymnCardDOM_def fresh_def tagged_def lyricsText_def)
  have lt: "CHR ''<'' \<in> markup_chars"
    by (simp add: markup_chars_def)
  have plain: "CHR ''T'' \<noteq> CHR ''&'' \<and> CHR ''T'' \<notin> markup_chars"
    by (simp add: markup_chars_def)
  have liked: "favorites_includes (favorites fresh) 8 = Inr False \<and> safe_id 8"
    by (simp add: fresh_def safe_id_def)
  have ids: "hymn_id tagged = 8" "hymn_id (tagged\<lparr>title := None, lyrics := None\<rparr>) = 8"
    by (simp_all add: tagged_def)
  have prev: "preview_of (lyricsCache fresh) tagged = ''<i>Hi</i>''"
    "preview_of (lyricsCache fresh) (tagged\<lparr>title := None, lyrics := None\<rparr>) = []"
    by (simp_all add: preview_of_def item_body_def fresh_def tagged_def)
  have body: "escapeHtml (Some ''<i>Hi</i>'') = ''&lt;i&gt;Hi&lt;/i&gt;''"
    by code_simp
  note spec = escapeHtml_spec
    [where s = "[]" and c = "CHR ''T''" and t = "title tagged" and st = fresh and h = tagged
       and html = "card_markup tagged ''<i>Hi</i>'' False" and n = 8 and liked = False]
  from spec plain have one: "escape_char (CHR ''T'') = ''T''"
    by blast
  from spec lt have two: "CHR ''<'' \<notin> set (escapeHtml (title tagged))"
    by blast
  from spec amp
  have three: "\<exists>e \<in> set entities. prefix e (drop 13 (escapeHtml (title tagged)))"
    by blast
  from spec made lt
  have four: "count_list (card_markup tagged ''<i>Hi</i>'' False) (CHR ''<'') =
      count_list card_template (CHR ''<'')"
    by blast
  from spec [THEN conjunct2, THEN conjunct2, THEN conjunct2, THEN conjunct2, THEN conjunct2,
      THEN conjunct2, THEN conjunct2, THEN conjunct2, THEN conjunct2, THEN conjunct2,
      THEN conjunct2] liked
  obtain pre mid post where frame:
      "suffix title_open pre" "prefix title_close mid" "suffix preview_open mid"
      "prefix preview_close post"
      "\<forall>m \<in> markup_chars. count_list (pre @ mid @ post) m = count_list card_template m"
      "\<forall>x. hymn_id x = 8 \<longrightarrow>
         createHymnCardDOM fresh x =
           Inr (pre @ escapeHtml (title x) @ mid @
                escapeHtml (Some (preview_of (lyricsCache fresh) x)) @
                (if preview_of (lyricsCache fresh) x = [] then ''Lyrics not available''
                 else ''...'') @ post)"
    by blast
  from frame(5) lt have cnt: "count_list (pre @ mid @ post) (CHR ''<'') = 26"
    by (simp add: template_counts)
  from frame(6) [rule_format, OF ids(1)] have full: "createHymnCardDOM fresh tagged =
        Inr (pre @ ''&lt;b&gt;Tom &amp; &quot;Jerry&quot;&lt;/b&gt;'' @ mid @
             ''&lt;i&gt;Hi&lt;/i&gt;'' @ ''...'' @ post)"
    by (simp only: esc prev body list.distinct if_False simp_thms)
  have none: "escapeHtml (title (tagged\<lparr>title := None, lyrics := None\<rparr>)) = []"
    "escapeHtml (Some []) = []"
    by (simp_all add: escapeHtml_def)
  from frame(6) [rule_format, OF ids(2)]
  have bare: "createHymnCardDOM fresh (tagged\<lparr>title := None, lyrics := None\<rparr>) =
        Inr (pre @ mid @ ''Lyrics not available'' @ post)"
    by (simp only: prev none if_True append_Nil simp_thms)
  from frame(1-4) cnt full bare
  have five: "\<exists>pre mid post.
      suffix title_open pre \<and> prefix title_close mid \<and> suffix preview_open mid \<and>
      prefix preview_close post \<and>
      count_list (pre @ mid @ post) (CHR ''<'') = 26 \<and>
      createHymnCardDOM fresh tagged =
        Inr (pre @ ''&lt;b&gt;Tom &amp; &quot;Jerry&quot;&lt;/b&gt;'' @ mid @
             ''&lt;i&gt;Hi&lt;/i&gt;'' @ ''...'' @ post) \<and>
      createHymnCardDOM fresh (tagged\<lparr>title := None, lyrics := None\<rparr>) =
        Inr (pre @ mid @ ''Lyrics not available'' @ post)"
    by blast
  from four have six: "count_list (card_markup tagged ''<i>Hi</i>'' False) (CHR ''<'') = 26"
    by (simp add: template_counts)
  from esc one two amp(2) three made six five show ?thesis
    by (intro conjI)
qed

subsection \<open>Loading the catalog\<close>













end
